theory Spec2Isabelle
  imports Complex_Main "HOL-Library.AList" "HOL-Library.Multiset"
begin

section \<open>JavaScript values\<close>

text \<open>
  The server is TypeScript run as JavaScript: the static types are erased, an entity is a
  plain object whose fields are whatever was spread into it, and a request body is any
  JSON value. The model therefore keeps values dynamic. A number is a rational (the code
  does arithmetic on integers only: counters and millisecond time stamps; \<open>NaN\<close> is not a
  value of the model and is written out where the code can meet it). A \<open>Date\<close> object
  carries its time value in milliseconds. An object is a partial map from property names
  to values: the order of its keys is not observed by any function modelled here.
  Strings are lists of 8-bit characters; text outside ASCII is held as its UTF-8 bytes.
\<close>

datatype jsval =
    JUndefined
  | JNull
  | JBool bool
  | JNum rat
  | JStr string
  | JDate int
  | JArr "jsval list"
  | JObj "string \<Rightarrow> jsval option"

type_synonym obj = "string \<Rightarrow> jsval option"

text \<open>What a \<open>throw\<close> carries, as far as the code tells the cases apart.\<close>

datatype exn = TypeError | SyntaxError | ZodError | NetworkError

text \<open>\<open>ToBoolean\<close>, as used by \<open>!x\<close>, \<open>x || y\<close>, \<open>x && y\<close>, \<open>x ? a : b\<close> and \<open>if (x)\<close>.\<close>

fun truthy :: "jsval \<Rightarrow> bool" where
  "truthy JUndefined = False"
| "truthy JNull = False"
| "truthy (JBool b) = b"
| "truthy (JNum n) = (n \<noteq> 0)"
| "truthy (JStr s) = (s \<noteq> [])"
| "truthy (JDate t) = True"
| "truthy (JArr xs) = True"
| "truthy (JObj m) = True"

text \<open>Reading a field of an object: an absent field reads as \<open>undefined\<close>.\<close>

definition fld :: "obj \<Rightarrow> string \<Rightarrow> jsval" where
  "fld m k = (case m k of None \<Rightarrow> JUndefined | Some v \<Rightarrow> v)"

text \<open>The decimal name of an array index, as a property key.\<close>

fun dec :: "nat \<Rightarrow> string" where
  "dec n = (if n < 10 then [''0123456789'' ! n]
            else dec (n div 10) @ [''0123456789'' ! (n mod 10)])"

definition index_props :: "jsval list \<Rightarrow> obj" where
  "index_props xs = map_of (zip (map dec [0..<length xs]) xs)"

text \<open>
  The own enumerable properties that an object spread \<open>{...v}\<close> copies: the fields of an
  object, the elements of an array and the characters of a string under their indices,
  nothing for any other value.
\<close>

fun spread :: "jsval \<Rightarrow> obj" where
  "spread (JObj m) = m"
| "spread (JArr xs) = index_props xs"
| "spread (JStr s) = index_props (map (\<lambda>c. JStr [c]) s)"
| "spread v = Map.empty"

text \<open>
  Property access \<open>v.k\<close> and \<open>v[k]\<close> on an arbitrary value, for data properties: it throws a
  \<open>TypeError\<close> on \<open>undefined\<close> and \<open>null\<close>, reads \<open>length\<close> and the indices of an array or a
  string, and gives \<open>undefined\<close> for a name the value does not have. (Inherited methods
  are not values of the model; the code reads none of them through this function.)
\<close>

fun js_get :: "jsval \<Rightarrow> string \<Rightarrow> exn + jsval" where
  "js_get JUndefined k = Inl TypeError"
| "js_get JNull k = Inl TypeError"
| "js_get (JObj m) k = Inr (fld m k)"
| "js_get (JArr xs) k =
     Inr (if k = ''length'' then JNum (of_nat (length xs)) else fld (index_props xs) k)"
| "js_get (JStr s) k =
     Inr (if k = ''length'' then JNum (of_nat (length s))
          else fld (index_props (map (\<lambda>c. JStr [c]) s)) k)"
| "js_get v k = Inr JUndefined"

text \<open>
  Strict equality \<open>===\<close>. Primitives are compared by value. Two objects, arrays or dates
  are equal only when they are the same reference, which a model of values does not
  track: the comparison answers \<open>False\<close> for them, which is exact whenever one side is
  a primitive.
\<close>

fun strict_eq :: "jsval \<Rightarrow> jsval \<Rightarrow> bool" where
  "strict_eq JUndefined JUndefined = True"
| "strict_eq JNull JNull = True"
| "strict_eq (JBool a) (JBool b) = (a = b)"
| "strict_eq (JNum a) (JNum b) = (a = b)"
| "strict_eq (JStr a) (JStr b) = (a = b)"
| "strict_eq v w = False"

text \<open>
  Built-in operations of the language whose full definition is outside the repository
  are parameters of the model: \<open>ToString\<close> on a value that is not a string (it can throw:
  an object whose \<open>toString\<close> is not callable), \<open>parseInt\<close> (\<open>None\<close> is \<open>NaN\<close>),
  \<open>JSON.parse\<close> (\<open>None\<close> is the \<open>SyntaxError\<close>), and the time value of \<open>new Date(v)\<close> for
  a \<open>v\<close> that is not itself a date (\<open>None\<close> is \<open>NaN\<close>).
\<close>

record builtins =
  ToString :: "jsval \<Rightarrow> exn + string"
  parseInt :: "jsval \<Rightarrow> int option"
  JSON_parse :: "string \<Rightarrow> jsval option"
  Date_value :: "jsval \<Rightarrow> int option"

definition to_string :: "builtins \<Rightarrow> jsval \<Rightarrow> exn + string" where
  "to_string rt v = (case v of JStr s \<Rightarrow> Inr s | _ \<Rightarrow> ToString rt v)"

text \<open>\<open>new Date(v).getTime()\<close>\<close>

definition getTime :: "builtins \<Rightarrow> jsval \<Rightarrow> int option" where
  "getTime rt v = (case v of JDate t \<Rightarrow> Some t | _ \<Rightarrow> Date_value rt v)"

text \<open>Subtraction of two numbers either of which may be \<open>NaN\<close>.\<close>

definition num_sub :: "int option \<Rightarrow> int option \<Rightarrow> int option" where
  "num_sub a b = (case a of None \<Rightarrow> None | Some x \<Rightarrow> (case b of None \<Rightarrow> None | Some y \<Rightarrow> Some (x - y)))"

subsection \<open>Arrays\<close>

text \<open>
  \<open>Array.prototype.sort\<close> with a comparator. The sort is stable, and a comparator result
  of \<open>NaN\<close> counts as \<open>+0\<close>. For a consistent comparator the result is determined by
  these two facts, and it is the result of the insertion sort below; for an inconsistent
  one (a \<open>NaN\<close> key among numbers) the language leaves the order to the implementation.
\<close>

definition sort_order :: "int option \<Rightarrow> int" where
  "sort_order v = (case v of None \<Rightarrow> 0 | Some d \<Rightarrow> d)"

fun js_insert :: "('a \<Rightarrow> 'a \<Rightarrow> int option) \<Rightarrow> 'a \<Rightarrow> 'a list \<Rightarrow> 'a list" where
  "js_insert cmp x [] = [x]"
| "js_insert cmp x (y # ys) =
     (if sort_order (cmp x y) \<le> 0 then x # y # ys else y # js_insert cmp x ys)"

definition js_sort :: "('a \<Rightarrow> 'a \<Rightarrow> int option) \<Rightarrow> 'a list \<Rightarrow> 'a list" where
  "js_sort cmp xs = foldr (js_insert cmp) xs []"

text \<open>\<open>xs.slice(0, e)\<close> and \<open>xs.slice(b)\<close>: a negative bound counts from the end.\<close>

definition slice_to :: "'a list \<Rightarrow> int \<Rightarrow> 'a list" where
  "slice_to xs e = (if e < 0 then take (nat (int (length xs) + e)) xs else take (nat e) xs)"

definition slice_from :: "'a list \<Rightarrow> int \<Rightarrow> 'a list" where
  "slice_from xs b = (if b < 0 then drop (nat (int (length xs) + b)) xs else drop (nat b) xs)"

subsection \<open>Maps\<close>

text \<open>
  A \<open>Map<number, V>\<close> keeps its entries in insertion order: \<open>set\<close> on a present key
  replaces the value in place, \<open>set\<close> on a new key appends, \<open>delete\<close> removes and tells
  whether the key was there. This is an association list with \<open>AList.update\<close> and
  \<open>AList.delete\<close>. Every key the store uses is an integer.
\<close>

type_synonym 'v js_map = "(int \<times> 'v) list"

definition map_values :: "'v js_map \<Rightarrow> 'v list" where
  "map_values m = map snd m"

definition map_has :: "'v js_map \<Rightarrow> int \<Rightarrow> bool" where
  "map_has m k = (k \<in> fst ` set m)"

section \<open>The in-memory store (server/storage.ts)\<close>

record store =
  users :: "obj js_map"
  worlds :: "obj js_map"
  characters :: "obj js_map"
  scenes :: "obj js_map"
  chatMessages :: "obj js_map"
  activityLogs :: "obj js_map"
  userIdCounter :: int
  worldIdCounter :: int
  characterIdCounter :: int
  sceneIdCounter :: int
  chatMessageIdCounter :: int
  activityLogIdCounter :: int

text \<open>
  Every operation takes the store and returns its result with the store it leaves.
  \<open>new Date()\<close> reads the clock: the value read is the argument \<open>now\<close> of a create.
  A result of \<open>undefined\<close> (entity not found) is \<open>None\<close>.
\<close>

subsection \<open>Users\<close>

definition getUser :: "store \<Rightarrow> int \<Rightarrow> obj option" where
  "getUser s id' = map_of (users s) id'"

definition getUserByUsername :: "store \<Rightarrow> string \<Rightarrow> obj option" where
  "getUserByUsername s username =
     find (\<lambda>user. strict_eq (fld user ''username'') (JStr username)) (map_values (users s))"

definition createUser :: "store \<Rightarrow> obj \<Rightarrow> obj \<times> store" where
  "createUser s insertUser =
     (let id' = userIdCounter s;
          user = insertUser(''id'' \<mapsto> JNum (of_int id'))
      in (user, s\<lparr>userIdCounter := id' + 1, users := AList.update id' user (users s)\<rparr>))"

subsection \<open>Worlds\<close>

definition getWorld :: "store \<Rightarrow> int \<Rightarrow> obj option" where
  "getWorld s id' = map_of (worlds s) id'"

definition getWorldsByUser :: "store \<Rightarrow> int \<Rightarrow> obj list" where
  "getWorldsByUser s userId =
     filter (\<lambda>world. strict_eq (fld world ''userId'') (JNum (of_int userId)))
       (map_values (worlds s))"

definition createWorld :: "store \<Rightarrow> int \<Rightarrow> obj \<Rightarrow> obj \<times> store" where
  "createWorld s now insertWorld =
     (let id' = worldIdCounter s;
          world = insertWorld(''id'' \<mapsto> JNum (of_int id'), ''createdAt'' \<mapsto> JDate now)
      in (world, s\<lparr>worldIdCounter := id' + 1, worlds := AList.update id' world (worlds s)\<rparr>))"

definition updateWorld :: "store \<Rightarrow> int \<Rightarrow> obj \<Rightarrow> obj option \<times> store" where
  "updateWorld s id' data =
     (case map_of (worlds s) id' of
        None \<Rightarrow> (None, s)
      | Some world \<Rightarrow>
          (let updatedWorld = world ++ data
           in (Some updatedWorld, s\<lparr>worlds := AList.update id' updatedWorld (worlds s)\<rparr>)))"

definition deleteWorld :: "store \<Rightarrow> int \<Rightarrow> bool \<times> store" where
  "deleteWorld s id' = (map_has (worlds s) id', s\<lparr>worlds := AList.delete id' (worlds s)\<rparr>)"

subsection \<open>Characters\<close>

definition getCharacter :: "store \<Rightarrow> int \<Rightarrow> obj option" where
  "getCharacter s id' = map_of (characters s) id'"

definition getCharactersByWorld :: "store \<Rightarrow> int \<Rightarrow> obj list" where
  "getCharactersByWorld s worldId =
     filter (\<lambda>char. strict_eq (fld char ''worldId'') (JNum (of_int worldId)))
       (map_values (characters s))"

definition createCharacter :: "store \<Rightarrow> int \<Rightarrow> obj \<Rightarrow> obj \<times> store" where
  "createCharacter s now insertCharacter =
     (let id' = characterIdCounter s;
          character = insertCharacter(''id'' \<mapsto> JNum (of_int id'), ''createdAt'' \<mapsto> JDate now)
      in (character,
          s\<lparr>characterIdCounter := id' + 1,
            characters := AList.update id' character (characters s)\<rparr>))"

definition updateCharacter :: "store \<Rightarrow> int \<Rightarrow> obj \<Rightarrow> obj option \<times> store" where
  "updateCharacter s id' data =
     (case map_of (characters s) id' of
        None \<Rightarrow> (None, s)
      | Some character \<Rightarrow>
          (let updatedCharacter = character ++ data
           in (Some updatedCharacter,
               s\<lparr>characters := AList.update id' updatedCharacter (characters s)\<rparr>)))"

definition updateCharacterMemory :: "store \<Rightarrow> int \<Rightarrow> jsval \<Rightarrow> obj option \<times> store" where
  "updateCharacterMemory s id' memory =
     (case map_of (characters s) id' of
        None \<Rightarrow> (None, s)
      | Some character \<Rightarrow>
          (let updatedCharacter = character(''memory'' \<mapsto> memory)
           in (Some updatedCharacter,
               s\<lparr>characters := AList.update id' updatedCharacter (characters s)\<rparr>)))"

definition deleteCharacter :: "store \<Rightarrow> int \<Rightarrow> bool \<times> store" where
  "deleteCharacter s id' =
     (map_has (characters s) id', s\<lparr>characters := AList.delete id' (characters s)\<rparr>)"

subsection \<open>Scenes\<close>

definition newest_first :: "builtins \<Rightarrow> obj \<Rightarrow> obj \<Rightarrow> int option" where
  "newest_first rt a b =
     num_sub (getTime rt (fld b ''createdAt'')) (getTime rt (fld a ''createdAt''))"

definition oldest_first :: "builtins \<Rightarrow> obj \<Rightarrow> obj \<Rightarrow> int option" where
  "oldest_first rt a b =
     num_sub (getTime rt (fld a ''createdAt'')) (getTime rt (fld b ''createdAt''))"

definition getScene :: "store \<Rightarrow> int \<Rightarrow> obj option" where
  "getScene s id' = map_of (scenes s) id'"

definition getScenesByWorld :: "builtins \<Rightarrow> store \<Rightarrow> int \<Rightarrow> obj list" where
  "getScenesByWorld rt s worldId =
     js_sort (newest_first rt)
       (filter (\<lambda>scene. strict_eq (fld scene ''worldId'') (JNum (of_int worldId)))
          (map_values (scenes s)))"

definition createScene :: "store \<Rightarrow> int \<Rightarrow> obj \<Rightarrow> obj \<times> store" where
  "createScene s now insertScene =
     (let id' = sceneIdCounter s;
          scene = insertScene(''id'' \<mapsto> JNum (of_int id'), ''createdAt'' \<mapsto> JDate now)
      in (scene, s\<lparr>sceneIdCounter := id' + 1, scenes := AList.update id' scene (scenes s)\<rparr>))"

definition updateScene :: "store \<Rightarrow> int \<Rightarrow> obj \<Rightarrow> obj option \<times> store" where
  "updateScene s id' data =
     (case map_of (scenes s) id' of
        None \<Rightarrow> (None, s)
      | Some scene \<Rightarrow>
          (let updatedScene = scene ++ data
           in (Some updatedScene, s\<lparr>scenes := AList.update id' updatedScene (scenes s)\<rparr>)))"

definition deleteScene :: "store \<Rightarrow> int \<Rightarrow> bool \<times> store" where
  "deleteScene s id' = (map_has (scenes s) id', s\<lparr>scenes := AList.delete id' (scenes s)\<rparr>)"

subsection \<open>Chat messages\<close>

text \<open>
  The route that generates a reply calls this function with the \<open>id\<close> field read from a
  stored character, so the argument is a value; the declared type is a number.
\<close>

definition getChatMessagesByCharacter :: "builtins \<Rightarrow> store \<Rightarrow> jsval \<Rightarrow> obj list" where
  "getChatMessagesByCharacter rt s characterId =
     js_sort (oldest_first rt)
       (filter (\<lambda>msg. strict_eq (fld msg ''characterId'') characterId)
          (map_values (chatMessages s)))"

definition createChatMessage :: "store \<Rightarrow> int \<Rightarrow> obj \<Rightarrow> obj \<times> store" where
  "createChatMessage s now insertMessage =
     (let id' = chatMessageIdCounter s;
          message = insertMessage(''id'' \<mapsto> JNum (of_int id'), ''createdAt'' \<mapsto> JDate now)
      in (message,
          s\<lparr>chatMessageIdCounter := id' + 1,
            chatMessages := AList.update id' message (chatMessages s)\<rparr>))"

subsection \<open>Activity logs\<close>

text \<open>The optional \<open>limit\<close> is \<open>None\<close> when the caller leaves it out.\<close>

definition getActivityLogsByWorld :: "builtins \<Rightarrow> store \<Rightarrow> int \<Rightarrow> int option \<Rightarrow> obj list" where
  "getActivityLogsByWorld rt s worldId limit =
     (let logs = js_sort (newest_first rt)
                   (filter (\<lambda>log. strict_eq (fld log ''worldId'') (JNum (of_int worldId)))
                      (map_values (activityLogs s)))
      in case limit of
           None \<Rightarrow> logs
         | Some n \<Rightarrow> if n \<noteq> 0 then slice_to logs n else logs)"

definition createActivityLog :: "store \<Rightarrow> int \<Rightarrow> obj \<Rightarrow> obj \<times> store" where
  "createActivityLog s now insertLog =
     (let id' = activityLogIdCounter s;
          log = insertLog(''id'' \<mapsto> JNum (of_int id'), ''createdAt'' \<mapsto> JDate now)
      in (log,
          s\<lparr>activityLogIdCounter := id' + 1,
            activityLogs := AList.update id' log (activityLogs s)\<rparr>))"

subsection \<open>The constructor and its demo data\<close>

text \<open>The texts of the demo data.\<close>

definition etherealIsles_description :: string where
  "etherealIsles_description =
     ''A realm of floating islands connected by magical bridges, where gravity is a suggestion and '' @
     ''dragons soar between crystal formations.''"

definition neonDistrict_description :: string where
  "neonDistrict_description =
     ''A sprawling metropolis where corporations rule and hackers are the new pirates, sailing the '' @
     ''digital seas in search of valuable data.''"

definition corsairsRealm_description :: string where
  "corsairsRealm_description =
     ''A world of endless oceans and uncharted islands, where pirate crews battle for treasure and '' @
     ''naval powers fight for control of the seas.''"

definition lyra_appearance :: string where
  "lyra_appearance =
     ''A tall elven woman with silver hair and violet eyes. Dressed in dark leather with a cloak '' @
     ''that seems to shift colors in the light.''"

definition lyra_personality :: string where
  "lyra_personality =
     ''Cunning, distrustful, and witty. Values freedom above all else and has a soft spot for '' @
     ''underdogs despite her tough exterior.''"

definition lyra_backstory :: string where
  "lyra_backstory =
     ''Raised in the floating forest settlements, Lyra turned to thievery after her home was '' @
     ''destroyed by crystal miners. Now she steals magical artifacts from the wealthy and powerful.''"

definition lyra_event1 :: string where
  "lyra_event1 =
     ''Master thief with a mysterious past, known for stealing magical artifacts without leaving a '' @
     ''trace''"

definition lyra_event2 :: string where
  "lyra_event2 =
     ''Knows the secret passages of the Crystal Tower''"

definition lyra_event3 :: string where
  "lyra_event3 =
     ''Distrusts authority figures, especially the Skyguard''"

definition cipher_appearance :: string where
  "cipher_appearance =
     ''Slender figure with cybernetic implants visible along the temples. Often wears a reflective '' @
     ''visor and dark clothing with glowing circuit patterns.''"

definition cipher_personality :: string where
  "cipher_personality =
     ''Analytical, paranoid, and brilliant. Speaks in technical jargon and views the world as a '' @
     ''system to be hacked.''"

definition cipher_backstory :: string where
  "cipher_backstory =
     ''Former corporate programmer who discovered dark secrets in the code and went rogue. Now '' @
     ''sells information to the highest bidder while avoiding corporate hunters.''"

definition cipher_event1 :: string where
  "cipher_event1 =
     ''Legendary hacker who can breach any system, has illegal neural implants''"

definition cipher_event2 :: string where
  "cipher_event2 =
     ''Knows about the backdoor into MegaTech's mainframe''"

definition cipher_event3 :: string where
  "cipher_event3 =
     ''Has a grudge against Director Chen of CyberSec Division''"

definition blackthorne_appearance :: string where
  "blackthorne_appearance =
     ''Tall, broad-shouldered with a weather-beaten face. Has a scar across his right eye and '' @
     ''wears a leather tricorn hat adorned with a single raven feather.''"

definition blackthorne_personality :: string where
  "blackthorne_personality =
     ''Bold, honorable among thieves, and superstitious. Commands loyalty through fairness rather '' @
     ''than fear.''"

definition blackthorne_backstory :: string where
  "blackthorne_backstory =
     ''Once a naval officer who mutinied when ordered to attack innocent merchants. Now captains '' @
     ''The Crimson Serpent, searching for the legendary Kraken's Pearl.''"

definition blackthorne_event1 :: string where
  "blackthorne_event1 =
     ''Fearsome yet honorable pirate captain with a cursed ship and loyal crew''"

definition blackthorne_event2 :: string where
  "blackthorne_event2 =
     ''Currently has the Kraken's Pearl hidden in his quarters''"

definition blackthorne_event3 :: string where
  "blackthorne_event3 =
     ''Searching for the legendary treasure that can control the seas''"

definition krakenScene_content :: string where
  "krakenScene_content =
     ''Captain Blackthorne stood at the helm of The Crimson Serpent, his weathered hands gripping '' @
     ''the wheel as the storm raged around them. Lightning split the sky, illuminating the '' @
     ''churning waves that threatened to swallow the ship whole.\<newline>\<newline>\"Cap'n!\" '' @
     ''shouted Quartermaster Reed from the main deck. \"The men say they heard it again'' @
     [CHR 0xE2, CHR 0x80, CHR 0x94] @
     ''the call of the Kraken!\"\<newline>\<newline>Blackthorne's scarred face remained impassive, '' @
     ''but his knuckles whitened against the wheel. \"Tell them to hold steady. No creature of the '' @
     ''deep will claim my ship this night.\"\<newline>\<newline>But even as the words left his '' @
     ''lips, he felt it'' @
     [CHR 0xE2, CHR 0x80, CHR 0x94] @
     ''a vibration through the hull that was neither thunder nor wave. Something ancient and '' @
     ''terrible was rising from the abyss, drawn to the legendary relic hidden in the captain's '' @
     ''quarters.\<newline>\<newline>The Kraken's Pearl pulsed with an eerie blue light, visible '' @
     ''even through the locked chest where Blackthorne had secured it. The artifact was said to '' @
     ''control the seas themselves, but at what cost?\<newline>\<newline>As tentacles began to '' @
     ''emerge from the darkness below, Blackthorne made his decision. Some treasures were never '' @
     ''meant to be claimed by mortal men...''"

definition chatMessage1_content :: string where
  "chatMessage1_content =
     ''*Lyra leans against a crystal formation, twirling a small dagger between her '' @
     ''fingers*\<newline>\<newline>Well, look who finally decided to show up. I was beginning to '' @
     ''think you'd gotten lost in the lower mists again. Not many people can find me when I don't '' @
     ''want to be found.''"

definition chatMessage2_content :: string where
  "chatMessage2_content =
     ''I've been looking for someone with your particular skills, Lyra. They say you're the only '' @
     ''thief who's ever infiltrated the Crystal Tower.''"

definition chatMessage3_content :: string where
  "chatMessage3_content =
     ''*Her eyes narrow slightly, the dagger suddenly still in her hand*\<newline>\<newline>That's '' @
     ''quite a reputation to have. And what if I told you those rumors were just that'' @
     [CHR 0xE2, CHR 0x80, CHR 0x94] @
     ''rumors? Though I must admit, I'm curious what you'd want from the Tower. The Skyguard '' @
     ''doesn't take kindly to thieves, and the magical defenses... well, let's just say they're '' @
     ''creative in their punishments.''"

definition chatMessage4_content :: string where
  "chatMessage4_content =
     ''I'm not interested in stealing anything. I need information. There's an ancient map hidden '' @
     ''in the archives that could lead to something valuable'' @
     [CHR 0xE2, CHR 0x80, CHR 0x94] @
     ''something that might interest even you.''"

definition chatMessage5_content :: string where
  "chatMessage5_content =
     ''*Lyra laughs, a musical sound that echoes off the floating rocks around '' @
     ''you*\<newline>\<newline>Information can be more valuable than gold'' @
     [CHR 0xE2, CHR 0x80, CHR 0x94] @
     ''and often more dangerous. What makes you think I'd risk my neck for a map that might lead '' @
     ''to something valuable? I deal in certainties, not possibilities.\<newline>\<newline>But I'm '' @
     ''listening. What exactly is this \"something valuable\" that has you seeking out a notorious '' @
     ''thief?''"


text \<open>
  The constructor makes six empty maps, sets the six counters to 1 and calls
  \<open>initDemoData\<close>, which reads \<open>Date.now()\<close> eighteen times: \<open>clock k\<close> is the value of
  the \<open>k\<close>-th read.
\<close>

definition empty_store :: store where
  "empty_store =
     \<lparr>users = [], worlds = [], characters = [], scenes = [], chatMessages = [],
      activityLogs = [],
      userIdCounter = 1, worldIdCounter = 1, characterIdCounter = 1, sceneIdCounter = 1,
      chatMessageIdCounter = 1, activityLogIdCounter = 1\<rparr>"

definition demoUser :: "int \<Rightarrow> obj" where
  "demoUser id' =
     [''id'' \<mapsto> JNum (of_int id'), ''username'' \<mapsto> JStr ''demouser'',
      ''password'' \<mapsto> JStr ''password'']"

definition etherealIsles :: "(nat \<Rightarrow> int) \<Rightarrow> int \<Rightarrow> int \<Rightarrow> obj" where
  "etherealIsles clock id' userId =
     [''id'' \<mapsto> JNum (of_int id'), ''userId'' \<mapsto> JNum (of_int userId),
      ''name'' \<mapsto> JStr ''Ethereal Isles'',
      ''description'' \<mapsto> JStr etherealIsles_description,
      ''createdAt'' \<mapsto> JDate (clock 0 - 15 * 24 * 60 * 60 * 1000)]"

definition neonDistrict :: "(nat \<Rightarrow> int) \<Rightarrow> int \<Rightarrow> int \<Rightarrow> obj" where
  "neonDistrict clock id' userId =
     [''id'' \<mapsto> JNum (of_int id'), ''userId'' \<mapsto> JNum (of_int userId),
      ''name'' \<mapsto> JStr ''Neon District'',
      ''description'' \<mapsto> JStr neonDistrict_description,
      ''createdAt'' \<mapsto> JDate (clock 1 - 10 * 24 * 60 * 60 * 1000)]"

definition corsairsRealm :: "(nat \<Rightarrow> int) \<Rightarrow> int \<Rightarrow> int \<Rightarrow> obj" where
  "corsairsRealm clock id' userId =
     [''id'' \<mapsto> JNum (of_int id'), ''userId'' \<mapsto> JNum (of_int userId),
      ''name'' \<mapsto> JStr ''Corsair's Realm'',
      ''description'' \<mapsto> JStr corsairsRealm_description,
      ''createdAt'' \<mapsto> JDate (clock 2 - 5 * 24 * 60 * 60 * 1000)]"

definition memory_event :: "string \<Rightarrow> string \<Rightarrow> jsval" where
  "memory_event type content = JObj [''type'' \<mapsto> JStr type, ''content'' \<mapsto> JStr content]"

definition lyra :: "(nat \<Rightarrow> int) \<Rightarrow> int \<Rightarrow> int \<Rightarrow> obj" where
  "lyra clock id' worldId =
     [''id'' \<mapsto> JNum (of_int id'), ''worldId'' \<mapsto> JNum (of_int worldId),
      ''name'' \<mapsto> JStr ''Lyra Nightshade'', ''role'' \<mapsto> JStr ''Rogue Elf'',
      ''appearance'' \<mapsto> JStr lyra_appearance,
      ''personality'' \<mapsto> JStr lyra_personality,
      ''backstory'' \<mapsto> JStr lyra_backstory,
      ''memory'' \<mapsto> JObj [''interactions'' \<mapsto> JNum 24,
         ''events'' \<mapsto> JArr [memory_event ''background'' lyra_event1,
                           memory_event ''knowledge'' lyra_event2,
                           memory_event ''relationship'' lyra_event3]],
      ''createdAt'' \<mapsto> JDate (clock 3 - 14 * 24 * 60 * 60 * 1000)]"

definition cipher :: "(nat \<Rightarrow> int) \<Rightarrow> int \<Rightarrow> int \<Rightarrow> obj" where
  "cipher clock id' worldId =
     [''id'' \<mapsto> JNum (of_int id'), ''worldId'' \<mapsto> JNum (of_int worldId),
      ''name'' \<mapsto> JStr ''Cipher_9'', ''role'' \<mapsto> JStr ''Netrunner'',
      ''appearance'' \<mapsto> JStr cipher_appearance,
      ''personality'' \<mapsto> JStr cipher_personality,
      ''backstory'' \<mapsto> JStr cipher_backstory,
      ''memory'' \<mapsto> JObj [''interactions'' \<mapsto> JNum 15,
         ''events'' \<mapsto> JArr [memory_event ''background'' cipher_event1,
                           memory_event ''knowledge'' cipher_event2,
                           memory_event ''relationship'' cipher_event3]],
      ''createdAt'' \<mapsto> JDate (clock 4 - 9 * 24 * 60 * 60 * 1000)]"

definition blackthorne :: "(nat \<Rightarrow> int) \<Rightarrow> int \<Rightarrow> int \<Rightarrow> obj" where
  "blackthorne clock id' worldId =
     [''id'' \<mapsto> JNum (of_int id'), ''worldId'' \<mapsto> JNum (of_int worldId),
      ''name'' \<mapsto> JStr ''Capt. Blackthorne'', ''role'' \<mapsto> JStr ''Pirate Captain'',
      ''appearance'' \<mapsto> JStr blackthorne_appearance,
      ''personality'' \<mapsto> JStr blackthorne_personality,
      ''backstory'' \<mapsto> JStr blackthorne_backstory,
      ''memory'' \<mapsto> JObj [''interactions'' \<mapsto> JNum 31,
         ''events'' \<mapsto> JArr [memory_event ''background'' blackthorne_event1,
                           memory_event ''possession'' blackthorne_event2,
                           memory_event ''goal'' blackthorne_event3]],
      ''createdAt'' \<mapsto> JDate (clock 5 - 4 * 24 * 60 * 60 * 1000)]"

definition krakenScene :: "(nat \<Rightarrow> int) \<Rightarrow> int \<Rightarrow> int \<Rightarrow> int \<Rightarrow> obj" where
  "krakenScene clock id' worldId blackthorne_id =
     [''id'' \<mapsto> JNum (of_int id'), ''worldId'' \<mapsto> JNum (of_int worldId),
      ''title'' \<mapsto> JStr ''The Kraken's Call'',
      ''content'' \<mapsto> JStr krakenScene_content,
      ''styleType'' \<mapsto> JStr ''Novel - Descriptive'', ''tone'' \<mapsto> JStr ''Dramatic'',
      ''includedCharacters'' \<mapsto> JArr [JNum (of_int blackthorne_id)],
      ''createdAt'' \<mapsto> JDate (clock 6 - 3 * 24 * 60 * 60 * 1000)]"

definition activity :: "int \<Rightarrow> string \<Rightarrow> int \<Rightarrow> string \<Rightarrow> int \<Rightarrow> obj" where
  "activity worldId activityType entityId description createdAt =
     [''worldId'' \<mapsto> JNum (of_int worldId), ''activityType'' \<mapsto> JStr activityType,
      ''entityId'' \<mapsto> JNum (of_int entityId), ''description'' \<mapsto> JStr description,
      ''createdAt'' \<mapsto> JDate createdAt]"

definition demo_message :: "int \<Rightarrow> int \<Rightarrow> bool \<Rightarrow> string \<Rightarrow> int \<Rightarrow> obj" where
  "demo_message characterId userId isUserMessage content createdAt =
     [''characterId'' \<mapsto> JNum (of_int characterId), ''userId'' \<mapsto> JNum (of_int userId),
      ''isUserMessage'' \<mapsto> JBool isUserMessage, ''content'' \<mapsto> JStr content,
      ''createdAt'' \<mapsto> JDate createdAt]"

definition add_demo_log :: "store \<Rightarrow> obj \<Rightarrow> store" where
  "add_demo_log s activity' =
     (let id' = activityLogIdCounter s;
          log = activity'(''id'' \<mapsto> JNum (of_int id'))
      in s\<lparr>activityLogIdCounter := id' + 1,
           activityLogs := AList.update id' log (activityLogs s)\<rparr>)"

definition add_demo_message :: "store \<Rightarrow> obj \<Rightarrow> store" where
  "add_demo_message s message =
     (let id' = chatMessageIdCounter s;
          chatMessage = message(''id'' \<mapsto> JNum (of_int id'))
      in s\<lparr>chatMessageIdCounter := id' + 1,
           chatMessages := AList.update id' chatMessage (chatMessages s)\<rparr>)"

definition initDemoData :: "(nat \<Rightarrow> int) \<Rightarrow> store \<Rightarrow> store" where
  "initDemoData clock s0 =
     (let u = userIdCounter s0;
          s1 = s0\<lparr>userIdCounter := u + 1, users := AList.update u (demoUser u) (users s0)\<rparr>;
          w1 = worldIdCounter s1;
          s2 = s1\<lparr>worldIdCounter := w1 + 1,
                 worlds := AList.update w1 (etherealIsles clock w1 u) (worlds s1)\<rparr>;
          w2 = worldIdCounter s2;
          s3 = s2\<lparr>worldIdCounter := w2 + 1,
                 worlds := AList.update w2 (neonDistrict clock w2 u) (worlds s2)\<rparr>;
          w3 = worldIdCounter s3;
          s4 = s3\<lparr>worldIdCounter := w3 + 1,
                 worlds := AList.update w3 (corsairsRealm clock w3 u) (worlds s3)\<rparr>;
          c1 = characterIdCounter s4;
          s5 = s4\<lparr>characterIdCounter := c1 + 1,
                 characters := AList.update c1 (lyra clock c1 w1) (characters s4)\<rparr>;
          c2 = characterIdCounter s5;
          s6 = s5\<lparr>characterIdCounter := c2 + 1,
                 characters := AList.update c2 (cipher clock c2 w2) (characters s5)\<rparr>;
          c3 = characterIdCounter s6;
          s7 = s6\<lparr>characterIdCounter := c3 + 1,
                 characters := AList.update c3 (blackthorne clock c3 w3) (characters s6)\<rparr>;
          k = sceneIdCounter s7;
          s8 = s7\<lparr>sceneIdCounter := k + 1,
                 scenes := AList.update k (krakenScene clock k w3 c3) (scenes s7)\<rparr>;
          activities =
            [activity w1 ''CHARACTER_CREATED'' c1 ''Created character Lyra Nightshade''
               (clock 7 - 14 * 24 * 60 * 60 * 1000),
             activity w2 ''CHARACTER_CREATED'' c2 ''Created character Cipher_9''
               (clock 8 - 9 * 24 * 60 * 60 * 1000),
             activity w3 ''CHARACTER_CREATED'' c3 ''Created character Capt. Blackthorne''
               (clock 9 - 4 * 24 * 60 * 60 * 1000),
             activity w3 ''SCENE_CREATED'' k ''Created scene The Kraken's Call''
               (clock 10 - 3 * 24 * 60 * 60 * 1000),
             activity w1 ''CHARACTER_CHAT'' c1 ''Conversation with Lyra''
               (clock 11 - 2 * 24 * 60 * 60 * 1000),
             activity w1 ''WORLD_UPDATED'' w1 ''Added Floating Bazaar location''
               (clock 12 - 1 * 24 * 60 * 60 * 1000)];
          s9 = foldl add_demo_log s8 activities;
          messages =
            [demo_message c1 u False chatMessage1_content
               (clock 13 - 2 * 24 * 60 * 60 * 1000 - 600000),
             demo_message c1 u True chatMessage2_content
               (clock 14 - 2 * 24 * 60 * 60 * 1000 - 540000),
             demo_message c1 u False chatMessage3_content
               (clock 15 - 2 * 24 * 60 * 60 * 1000 - 480000),
             demo_message c1 u True chatMessage4_content
               (clock 16 - 2 * 24 * 60 * 60 * 1000 - 420000),
             demo_message c1 u False chatMessage5_content
               (clock 17 - 2 * 24 * 60 * 60 * 1000 - 360000)]
      in foldl add_demo_message s9 messages)"

definition MemStorage_new :: "(nat \<Rightarrow> int) \<Rightarrow> store" where
  "MemStorage_new clock = initDemoData clock empty_store"

section \<open>The generator and the analyzer (server/ai.ts)\<close>

text \<open>
  What the two functions meet outside the process: the credential
  \<open>process.env.GEMINI_API_KEY\<close>, the network and the error console. \<open>replies k\<close> is what
  the \<open>k\<close>-th call of \<open>fetch\<close> meets; \<open>sent\<close> keeps the requests made, so that a run which
  makes no network call leaves it unchanged; \<open>console\<close> keeps the first argument of each
  \<open>console.error\<close>.
\<close>

datatype reply =
    Rejected
  | Unreadable
  | Json jsval

record request =
  url :: string
  http_method :: string
  headers :: obj
  body :: jsval

record world =
  GEMINI_API_KEY :: "string option"
  replies :: "nat \<Rightarrow> reply"
  sent :: "request list"
  console :: "string list"

definition console_error :: "world \<Rightarrow> string \<Rightarrow> world" where
  "console_error w label = w\<lparr>console := console w @ [label]\<rparr>"

text \<open>\<open>!process.env.GEMINI_API_KEY\<close>: the variable is unset or empty.\<close>

definition no_api_key :: "world \<Rightarrow> bool" where
  "no_api_key w = (case GEMINI_API_KEY w of None \<Rightarrow> True | Some k \<Rightarrow> k = [])"

text \<open>\<open>await fetch(url, init)\<close> rejects or resolves to a response; the request has been made.\<close>

definition fetch :: "world \<Rightarrow> request \<Rightarrow> (exn + reply) \<times> world" where
  "fetch w req =
     (let w' = w\<lparr>sent := sent w @ [req]\<rparr>
      in case replies w (length (sent w)) of
           Rejected \<Rightarrow> (Inl NetworkError, w')
         | r \<Rightarrow> (Inr r, w'))"

text \<open>\<open>await response.json()\<close> rejects when the body is not JSON text.\<close>

definition response_json :: "reply \<Rightarrow> exn + jsval" where
  "response_json r = (case r of Json v \<Rightarrow> Inr v | _ \<Rightarrow> Inl SyntaxError)"

definition bind_exn :: "exn + 'a \<Rightarrow> ('a \<Rightarrow> exn + 'b) \<Rightarrow> exn + 'b" where
  "bind_exn m f = (case m of Inl e \<Rightarrow> Inl e | Inr v \<Rightarrow> f v)"

fun map_exn :: "('a \<Rightarrow> exn + 'b) \<Rightarrow> 'a list \<Rightarrow> exn + 'b list" where
  "map_exn f [] = Inr []"
| "map_exn f (x # xs) =
     bind_exn (f x) (\<lambda>y. bind_exn (map_exn f xs) (\<lambda>ys. Inr (y # ys)))"

text \<open>\<open>xs.join(sep)\<close> on strings.\<close>

fun js_join :: "string \<Rightarrow> string list \<Rightarrow> string" where
  "js_join sep [] = []"
| "js_join sep [x] = x"
| "js_join sep (x # y # ys) = x @ sep @ js_join sep (y # ys)"

definition gemini_url :: string where
  "gemini_url =
     ''https://generativelanguage.googleapis.com/v1beta/models/gemini-pro:generateContent?key=''"

text \<open>
  The request of both functions: a POST of JSON text to the endpoint, the key appended to
  the address. \<open>body\<close> is the value whose JSON text is sent.
\<close>

definition gemini_request :: "world \<Rightarrow> jsval \<Rightarrow> request" where
  "gemini_request w payload =
     \<lparr>url = gemini_url @ (case GEMINI_API_KEY w of None \<Rightarrow> ''undefined'' | Some k \<Rightarrow> k),
      http_method = ''POST'',
      headers = [''Content-Type'' \<mapsto> JStr ''application/json''],
      body = payload\<rparr>"

definition content_turn :: "string \<Rightarrow> jsval \<Rightarrow> jsval" where
  "content_turn role text =
     JObj [''role'' \<mapsto> JStr role, ''parts'' \<mapsto> JArr [JObj [''text'' \<mapsto> text]]]"

text \<open>
  The test both functions make on the parsed reply,
  \<open>!data.candidates || data.candidates.length === 0 || !data.candidates[0].content\<close>:
  \<open>Inr True\<close> when the reply is refused, \<open>Inl\<close> when a property access throws.
\<close>

definition no_candidate :: "jsval \<Rightarrow> exn + bool" where
  "no_candidate data =
     bind_exn (js_get data ''candidates'') (\<lambda>candidates.
       if \<not> truthy candidates then Inr True
       else bind_exn (js_get candidates ''length'') (\<lambda>len.
         if strict_eq len (JNum 0) then Inr True
         else bind_exn (js_get candidates ''0'') (\<lambda>first.
           bind_exn (js_get first ''content'') (\<lambda>content. Inr (\<not> truthy content)))))"

text \<open>\<open>data.candidates[0].content.parts[0].text\<close>\<close>

definition candidate_text :: "jsval \<Rightarrow> exn + jsval" where
  "candidate_text data =
     bind_exn (js_get data ''candidates'') (\<lambda>candidates.
     bind_exn (js_get candidates ''0'') (\<lambda>first.
     bind_exn (js_get first ''content'') (\<lambda>content.
     bind_exn (js_get content ''parts'') (\<lambda>parts.
     bind_exn (js_get parts ''0'') (\<lambda>part.
     js_get part ''text'')))))"

subsection \<open>generateCharacterResponse\<close>

definition fallback_response :: string where
  "fallback_response =
     ''I seem to be having trouble finding the right words. Perhaps we can try again in a moment?''"

text \<open>
  The bullet list of the prompt. \<open>Object.entries\<close> lists the properties of \<open>memory.facts\<close> in
  the order the language keeps them; objects here are maps without an order, so the
  listing is a parameter.
\<close>

definition memory_facts ::
  "(jsval \<Rightarrow> (string \<times> jsval) list) \<Rightarrow> builtins \<Rightarrow> obj \<Rightarrow> exn + string" where
  "memory_facts Object_entries rt character =
     (let memory = fld character ''memory'' in
      if \<not> truthy memory then Inr ''- You have no specific memories yet.''
      else bind_exn (js_get memory ''facts'') (\<lambda>facts.
        if \<not> truthy facts then Inr ''- You have no specific memories yet.''
        else bind_exn
               (map_exn (\<lambda>(key, value). bind_exn (to_string rt value) (\<lambda>v. Inr (''- '' @ v)))
                  (Object_entries facts))
               (\<lambda>lines. Inr (js_join ''\<newline>'' lines))))"

definition characterDescription ::
  "(jsval \<Rightarrow> (string \<times> jsval) list) \<Rightarrow> builtins \<Rightarrow> obj \<Rightarrow> exn + string" where
  "characterDescription Object_entries rt character =
     bind_exn (to_string rt (fld character ''name'')) (\<lambda>name.
     bind_exn (to_string rt (fld character ''role'')) (\<lambda>role.
     bind_exn (to_string rt (fld character ''appearance'')) (\<lambda>appearance.
     bind_exn (to_string rt (fld character ''personality'')) (\<lambda>personality.
     bind_exn (to_string rt (fld character ''backstory'')) (\<lambda>backstory.
     bind_exn (memory_facts Object_entries rt character) (\<lambda>facts.
     bind_exn (to_string rt (fld character ''name'')) (\<lambda>name'.
       Inr (''\<newline>      You are '' @ name @
            '', a character with the following traits:\<newline>      - Role: '' @ role @
            ''\<newline>      - Appearance: '' @ appearance @
            ''\<newline>      - Personality: '' @ personality @
            ''\<newline>      - Backstory: '' @ backstory @
            ''\<newline>      \<newline>      Remember these key facts about yourself:\<newline>      '' @
            facts @
            ''\<newline>      \<newline>      Always respond in first person, as if you are '' @
            name' @
            ''.\<newline>      Stay in character at all times and reflect your personality in your responses.\<newline>    ''))))))))"

text \<open>The body of the \<open>try\<close> block: its value, or what it throws.\<close>

definition generate_try ::
  "(jsval \<Rightarrow> (string \<times> jsval) list) \<Rightarrow> builtins \<Rightarrow> world \<Rightarrow> obj \<Rightarrow> obj list
     \<Rightarrow> (exn + jsval) \<times> world" where
  "generate_try Object_entries rt w character messages =
     (if no_api_key w
      then (Inr (JStr fallback_response),
            console_error w ''Missing GEMINI_API_KEY environment variable'')
      else
        let recentMessages = slice_from messages (- 10);
            formattedMessages =
              map (\<lambda>msg. (if truthy (fld msg ''isUserMessage'') then ''user'' else ''assistant'',
                          fld msg ''content'')) recentMessages
        in case characterDescription Object_entries rt character of
             Inl e \<Rightarrow> (Inl e, w)
           | Inr description \<Rightarrow>
               (case fetch w (gemini_request w
                       (JObj [''contents'' \<mapsto>
                                JArr (content_turn ''user'' (JStr description) #
                                      map (\<lambda>(role, content). content_turn role content)
                                        formattedMessages),
                              ''generationConfig'' \<mapsto>
                                JObj [''temperature'' \<mapsto> JNum (7 / 10),
                                      ''maxOutputTokens'' \<mapsto> JNum 800]])) of
                  (Inl e, w') \<Rightarrow> (Inl e, w')
                | (Inr response, w') \<Rightarrow>
                    (case response_json response of
                       Inl e \<Rightarrow> (Inl e, w')
                     | Inr data \<Rightarrow>
                         (case no_candidate data of
                            Inl e \<Rightarrow> (Inl e, w')
                          | Inr True \<Rightarrow>
                              (Inr (JStr fallback_response),
                               console_error w' ''Error generating character response:'')
                          | Inr False \<Rightarrow> (candidate_text data, w')))))"

text \<open>The function: the \<open>try\<close> block, and the \<open>catch\<close> that answers with the fallback.\<close>

definition generateCharacterResponse ::
  "(jsval \<Rightarrow> (string \<times> jsval) list) \<Rightarrow> builtins \<Rightarrow> world \<Rightarrow> obj \<Rightarrow> obj list
     \<Rightarrow> (exn + jsval) \<times> world" where
  "generateCharacterResponse Object_entries rt w character messages =
     (case generate_try Object_entries rt w character messages of
        (Inl error, w') \<Rightarrow>
          (Inr (JStr fallback_response),
           console_error w' ''Error generating character response:'')
      | (Inr textResponse, w') \<Rightarrow> (Inr textResponse, w'))"

subsection \<open>analyzeMoodFromText\<close>

definition neutral_mood :: jsval where
  "neutral_mood =
     JObj [''mood'' \<mapsto> JStr ''neutral'', ''intensity'' \<mapsto> JNum (1 / 2),
           ''dominantColor'' \<mapsto> JStr ''#808080'']"

text \<open>
  \<open>s.replace(/```json|```/g, '')\<close>: every match from left to right is removed, the longer
  alternative tried first.
\<close>

fun strip_fences :: "string \<Rightarrow> string" where
  "strip_fences [] = []"
| "strip_fences (c # cs) =
     (if take 7 (c # cs) = ''```json'' then strip_fences (drop 6 cs)
      else if take 3 (c # cs) = ''```'' then strip_fences (drop 2 cs)
      else c # strip_fences cs)"

definition mood_prompt :: "builtins \<Rightarrow> jsval \<Rightarrow> exn + string" where
  "mood_prompt rt text =
     bind_exn (to_string rt text) (\<lambda>t.
       Inr (''\<newline>      Analyze the mood of the following text and provide a JSON response with these fields:'' @
            ''\<newline>      1. mood: A single word describing the emotional tone (e.g., happy, sad, angry, etc.)'' @
            ''\<newline>      2. intensity: A number from 0 to 1 indicating how strong the emotion is'' @
            ''\<newline>      3. dominantColor: A hex color code that represents this mood (warm colors for positive moods, cool colors for negative moods)'' @
            ''\<newline>      \<newline>      Text to analyze: \"'' @ t @
            ''\"\<newline>      \<newline>      Format your response as valid JSON only.\<newline>    ''))"

text \<open>
  The inner \<open>try\<close>: \<open>textResponse.replace(...).trim()\<close> throws unless \<open>textResponse\<close> is a
  string, and \<open>JSON.parse\<close> throws on text that is not JSON; the inner \<open>catch\<close> answers
  with the neutral mood. \<open>trim\<close> is the language's (its table of white space is not
  the repository's).
\<close>

definition parse_mood :: "(string \<Rightarrow> string) \<Rightarrow> builtins \<Rightarrow> world \<Rightarrow> jsval \<Rightarrow> jsval \<times> world" where
  "parse_mood trim rt w textResponse =
     (case textResponse of
        JStr t \<Rightarrow>
          (case JSON_parse rt (trim (strip_fences t)) of
             None \<Rightarrow> (neutral_mood, console_error w ''Error parsing mood analysis JSON:'')
           | Some moodAnalysis \<Rightarrow> (moodAnalysis, w))
      | _ \<Rightarrow> (neutral_mood, console_error w ''Error parsing mood analysis JSON:''))"

definition analyze_try ::
  "(string \<Rightarrow> string) \<Rightarrow> builtins \<Rightarrow> world \<Rightarrow> jsval \<Rightarrow> (exn + jsval) \<times> world" where
  "analyze_try trim rt w text =
     (if no_api_key w
      then (Inr neutral_mood, console_error w ''Missing GEMINI_API_KEY environment variable'')
      else
        case mood_prompt rt text of
          Inl e \<Rightarrow> (Inl e, w)
        | Inr prompt \<Rightarrow>
            (case fetch w (gemini_request w
                    (JObj [''contents'' \<mapsto> JArr [content_turn ''user'' (JStr prompt)],
                           ''generationConfig'' \<mapsto>
                             JObj [''temperature'' \<mapsto> JNum (2 / 10),
                                   ''maxOutputTokens'' \<mapsto> JNum 200]])) of
               (Inl e, w') \<Rightarrow> (Inl e, w')
             | (Inr response, w') \<Rightarrow>
                 (case response_json response of
                    Inl e \<Rightarrow> (Inl e, w')
                  | Inr data \<Rightarrow>
                      (case no_candidate data of
                         Inl e \<Rightarrow> (Inl e, w')
                       | Inr True \<Rightarrow> (Inr neutral_mood, console_error w' ''Error analyzing mood:'')
                       | Inr False \<Rightarrow>
                           (case candidate_text data of
                              Inl e \<Rightarrow> (Inl e, w')
                            | Inr textResponse \<Rightarrow>
                                (case parse_mood trim rt w' textResponse of
                                   (moodAnalysis, w'') \<Rightarrow> (Inr moodAnalysis, w'')))))))"

definition analyzeMoodFromText ::
  "(string \<Rightarrow> string) \<Rightarrow> builtins \<Rightarrow> world \<Rightarrow> jsval \<Rightarrow> (exn + jsval) \<times> world" where
  "analyzeMoodFromText trim rt w text =
     (case analyze_try trim rt w text of
        (Inl error, w') \<Rightarrow> (Inr neutral_mood, console_error w' ''Error analyzing mood:'')
      | (Inr moodAnalysis, w') \<Rightarrow> (Inr moodAnalysis, w'))"

section \<open>The routes (server/routes.ts)\<close>

text \<open>
  A handler takes the store (and, where it calls the generator, the world), the parsed
  request and the clock values its creates read, and returns the response with the store
  it leaves. A response is its status and the value given to \<open>res.json\<close> (\<open>undefined\<close>
  for the empty \<open>send()\<close>). Every handler body is a \<open>try\<close> whose \<open>catch\<close> answers 500; the
  store keeps what was written before the throw.

  The insert schemas are built by a library from the column lists of shared/schema.ts;
  their \<open>parse\<close> is a parameter: it gives the validated object or the issues of the
  \<open>ZodError\<close> it throws.
\<close>

datatype response = Response nat jsval

record schemas =
  insertWorldSchema :: "jsval \<Rightarrow> jsval + obj"
  insertCharacterSchema :: "jsval \<Rightarrow> jsval + obj"

definition message :: "string \<Rightarrow> jsval" where
  "message text = JObj [''message'' \<mapsto> JStr text]"

definition invalid_data :: "jsval \<Rightarrow> jsval" where
  "invalid_data errors = JObj [''message'' \<mapsto> JStr ''Invalid data'', ''errors'' \<mapsto> errors]"

text \<open>
  The key under which \<open>Map.get(v)\<close> looks: the map holds integer keys only, so any other
  value finds nothing.
\<close>

definition key_of :: "jsval \<Rightarrow> int option" where
  "key_of v = (case v of JNum n \<Rightarrow> if of_int \<lfloor>n\<rfloor> = n then Some \<lfloor>n\<rfloor> else None | _ \<Rightarrow> None)"

text \<open>POST /api/worlds\<close>

definition post_worlds ::
  "schemas \<Rightarrow> builtins \<Rightarrow> store \<Rightarrow> jsval \<Rightarrow> int \<Rightarrow> int \<Rightarrow> response \<times> store" where
  "post_worlds sch rt s req_body now1 now2 =
     (case insertWorldSchema sch (JObj ((spread req_body)(''userId'' \<mapsto> JNum 1))) of
        Inl errors \<Rightarrow> (Response 400 (invalid_data errors), s)
      | Inr validatedData \<Rightarrow>
          (case createWorld s now1 validatedData of
             (newWorld, s1) \<Rightarrow>
               (case to_string rt (fld newWorld ''name'') of
                  Inl error \<Rightarrow> (Response 500 (message ''Error creating world''), s1)
                | Inr name \<Rightarrow>
                    (case createActivityLog s1 now2
                            [''worldId'' \<mapsto> fld newWorld ''id'',
                             ''activityType'' \<mapsto> JStr ''WORLD_CREATED'',
                             ''entityId'' \<mapsto> fld newWorld ''id'',
                             ''description'' \<mapsto> JStr (''Created world '' @ name)] of
                       (activityLog, s2) \<Rightarrow> (Response 201 (JObj newWorld), s2)))))"

text \<open>DELETE /api/worlds/:id\<close>

definition delete_world :: "builtins \<Rightarrow> store \<Rightarrow> string \<Rightarrow> response \<times> store" where
  "delete_world rt s id_param =
     (case parseInt rt (JStr id_param) of
        None \<Rightarrow> (Response 404 (message ''World not found''), s)
      | Some worldId \<Rightarrow>
          (case getWorld s worldId of
             None \<Rightarrow> (Response 404 (message ''World not found''), s)
           | Some world \<Rightarrow>
               (case deleteWorld s worldId of
                  (success, s1) \<Rightarrow>
                    if success then (Response 204 JUndefined, s1)
                    else (Response 500 (message ''Failed to delete world''), s1))))"

text \<open>GET /api/worlds/:worldId/characters\<close>

definition get_world_characters :: "builtins \<Rightarrow> store \<Rightarrow> string \<Rightarrow> response" where
  "get_world_characters rt s worldId_param =
     (case parseInt rt (JStr worldId_param) of
        None \<Rightarrow> Response 404 (message ''World not found'')
      | Some worldId \<Rightarrow>
          (case getWorld s worldId of
             None \<Rightarrow> Response 404 (message ''World not found'')
           | Some world \<Rightarrow> Response 200 (JArr (map JObj (getCharactersByWorld s worldId)))))"

text \<open>POST /api/characters\<close>

definition post_characters ::
  "schemas \<Rightarrow> builtins \<Rightarrow> store \<Rightarrow> jsval \<Rightarrow> int \<Rightarrow> int \<Rightarrow> response \<times> store" where
  "post_characters sch rt s req_body now1 now2 =
     (case insertCharacterSchema sch req_body of
        Inl errors \<Rightarrow> (Response 400 (invalid_data errors), s)
      | Inr validatedData \<Rightarrow>
          (case createCharacter s now1 validatedData of
             (newCharacter, s1) \<Rightarrow>
               (case to_string rt (fld newCharacter ''name'') of
                  Inl error \<Rightarrow> (Response 500 (message ''Error creating character''), s1)
                | Inr name \<Rightarrow>
                    (case createActivityLog s1 now2
                            [''worldId'' \<mapsto> fld newCharacter ''worldId'',
                             ''activityType'' \<mapsto> JStr ''CHARACTER_CREATED'',
                             ''entityId'' \<mapsto> fld newCharacter ''id'',
                             ''description'' \<mapsto> JStr (''Created character '' @ name)] of
                       (activityLog, s2) \<Rightarrow> (Response 201 (JObj newCharacter), s2)))))"

text \<open>PATCH /api/characters/:id\<close>

definition patch_character ::
  "builtins \<Rightarrow> store \<Rightarrow> string \<Rightarrow> jsval \<Rightarrow> int \<Rightarrow> response \<times> store" where
  "patch_character rt s id_param req_body now =
     (case parseInt rt (JStr id_param) of
        None \<Rightarrow> (Response 404 (message ''Character not found''), s)
      | Some characterId \<Rightarrow>
          (case getCharacter s characterId of
             None \<Rightarrow> (Response 404 (message ''Character not found''), s)
           | Some character \<Rightarrow>
               (case updateCharacter s characterId (spread req_body) of
                  (updatedCharacter, s1) \<Rightarrow>
                    (case to_string rt (fld character ''name'') of
                       Inl error \<Rightarrow> (Response 500 (message ''Error updating character''), s1)
                     | Inr name \<Rightarrow>
                         (case createActivityLog s1 now
                                 [''worldId'' \<mapsto> fld character ''worldId'',
                                  ''activityType'' \<mapsto> JStr ''CHARACTER_UPDATED'',
                                  ''entityId'' \<mapsto> JNum (of_int characterId),
                                  ''description'' \<mapsto> JStr (''Updated character '' @ name)] of
                            (activityLog, s2) \<Rightarrow>
                              (Response 200
                                 (case updatedCharacter of None \<Rightarrow> JUndefined | Some c \<Rightarrow> JObj c),
                               s2))))))"

text \<open>PATCH /api/characters/:id/memory; \<open>current_memory\<close> is \<open>character.memory || {}\<close>.\<close>

definition current_memory :: "obj \<Rightarrow> jsval" where
  "current_memory character =
     (if truthy (fld character ''memory'') then fld character ''memory'' else JObj Map.empty)"

definition patch_character_memory ::
  "builtins \<Rightarrow> store \<Rightarrow> string \<Rightarrow> jsval \<Rightarrow> response \<times> store" where
  "patch_character_memory rt s id_param req_body =
     (case parseInt rt (JStr id_param) of
        None \<Rightarrow> (Response 404 (message ''Character not found''), s)
      | Some characterId \<Rightarrow>
          (case getCharacter s characterId of
             None \<Rightarrow> (Response 404 (message ''Character not found''), s)
           | Some character \<Rightarrow>
               (let currentMemory = current_memory character;
                    newMemory = JObj (spread currentMemory ++ spread req_body)
                in case updateCharacterMemory s characterId newMemory of
                     (updatedCharacter, s1) \<Rightarrow>
                       (Response 200
                          (case updatedCharacter of None \<Rightarrow> JUndefined | Some c \<Rightarrow> JObj c),
                        s1))))"

text \<open>
  GET /api/worlds/:worldId/activity, \<open>query_limit\<close> being \<open>req.query.limit\<close>. A limit that
  parses to \<open>NaN\<close> reaches the store as \<open>NaN\<close>, which \<open>if (limit)\<close> takes like a missing one:
  it is \<open>None\<close> here.
\<close>

definition get_world_activity :: "builtins \<Rightarrow> store \<Rightarrow> string \<Rightarrow> jsval \<Rightarrow> response" where
  "get_world_activity rt s worldId_param query_limit =
     (case parseInt rt (JStr worldId_param) of
        None \<Rightarrow> Response 404 (message ''World not found'')
      | Some worldId \<Rightarrow>
          (case getWorld s worldId of
             None \<Rightarrow> Response 404 (message ''World not found'')
           | Some world \<Rightarrow>
               (let limit = (if truthy query_limit then parseInt rt query_limit else None)
                in Response 200 (JArr (map JObj (getActivityLogsByWorld rt s worldId limit))))))"

text \<open>
  POST /api/generate-character-response. The handler reads the character under the
  parsed id and from then on uses the \<open>id\<close> field of the object it read.
\<close>

definition failed_generation :: "store \<Rightarrow> world \<Rightarrow> response \<times> store \<times> world" where
  "failed_generation s w =
     (Response 500 (message ''Error generating character response''), s,
      console_error w ''Error generating character response:'')"

definition post_generate_character_response ::
  "(jsval \<Rightarrow> (string \<times> jsval) list) \<Rightarrow> (string \<Rightarrow> string) \<Rightarrow> builtins \<Rightarrow> store \<Rightarrow> world
     \<Rightarrow> jsval \<Rightarrow> int \<Rightarrow> response \<times> store \<times> world" where
  "post_generate_character_response Object_entries trim rt s w req_body now =
     (case js_get req_body ''characterId'' of
        Inl error \<Rightarrow> failed_generation s w
      | Inr characterId \<Rightarrow>
          if \<not> truthy characterId then (Response 400 (message ''Missing characterId''), s, w)
          else
            (case (case parseInt rt characterId of None \<Rightarrow> None | Some k \<Rightarrow> getCharacter s k) of
               None \<Rightarrow> (Response 404 (message ''Character not found''), s, w)
             | Some character \<Rightarrow>
                 (let messages = getChatMessagesByCharacter rt s (fld character ''id'') in
                  case generateCharacterResponse Object_entries rt w character messages of
                    (Inl error, w1) \<Rightarrow> failed_generation s w1
                  | (Inr response, w1) \<Rightarrow>
                      (case analyzeMoodFromText trim rt w1 response of
                         (Inl error, w2) \<Rightarrow> failed_generation s w2
                       | (Inr moodAnalysis, w2) \<Rightarrow>
                           (case bind_exn (js_get moodAnalysis ''mood'') (\<lambda>mood.
                                   bind_exn (js_get moodAnalysis ''intensity'') (\<lambda>intensity.
                                   bind_exn (js_get moodAnalysis ''dominantColor'') (\<lambda>dominantColor.
                                     Inr (mood, intensity, dominantColor)))) of
                              Inl error \<Rightarrow> failed_generation s w2
                            | Inr (mood, intensity, dominantColor) \<Rightarrow>
                                (case createChatMessage s now
                                        [''characterId'' \<mapsto> fld character ''id'',
                                         ''userId'' \<mapsto> JNum 1,
                                         ''isUserMessage'' \<mapsto> JBool False,
                                         ''content'' \<mapsto> response,
                                         ''mood'' \<mapsto> mood,
                                         ''moodIntensity'' \<mapsto> intensity,
                                         ''moodColor'' \<mapsto> dominantColor] of
                                   (newMessage, s1) \<Rightarrow>
                                     (case (case key_of (fld character ''id'') of
                                              None \<Rightarrow> (None, s1)
                                            | Some k \<Rightarrow>
                                                updateCharacter s1 k
                                                  [''currentMood'' \<mapsto> mood,
                                                   ''currentMoodIntensity'' \<mapsto> intensity,
                                                   ''currentMoodColor'' \<mapsto> dominantColor]) of
                                        (updated, s2) \<Rightarrow>
                                          (Response 200
                                             (JObj [''message'' \<mapsto> response,
                                                    ''mood'' \<mapsto> moodAnalysis]),
                                           s2, w2))))))))"

section \<open>Runs of store operations\<close>

text \<open>
  The calls that change the store, with their arguments: a run is a list of them
  applied in order. The reads leave the store as it is and are not listed.
\<close>

datatype op =
    CreateUser obj
  | CreateWorld int obj
  | UpdateWorld int obj
  | DeleteWorld int
  | CreateCharacter int obj
  | UpdateCharacter int obj
  | UpdateCharacterMemory int jsval
  | DeleteCharacter int
  | CreateScene int obj
  | UpdateScene int obj
  | DeleteScene int
  | CreateChatMessage int obj
  | CreateActivityLog int obj

fun apply_op :: "store \<Rightarrow> op \<Rightarrow> store" where
  "apply_op s (CreateUser u) = snd (createUser s u)"
| "apply_op s (CreateWorld now w) = snd (createWorld s now w)"
| "apply_op s (UpdateWorld i d) = snd (updateWorld s i d)"
| "apply_op s (DeleteWorld i) = snd (deleteWorld s i)"
| "apply_op s (CreateCharacter now c) = snd (createCharacter s now c)"
| "apply_op s (UpdateCharacter i d) = snd (updateCharacter s i d)"
| "apply_op s (UpdateCharacterMemory i m) = snd (updateCharacterMemory s i m)"
| "apply_op s (DeleteCharacter i) = snd (deleteCharacter s i)"
| "apply_op s (CreateScene now c) = snd (createScene s now c)"
| "apply_op s (UpdateScene i d) = snd (updateScene s i d)"
| "apply_op s (DeleteScene i) = snd (deleteScene s i)"
| "apply_op s (CreateChatMessage now m) = snd (createChatMessage s now m)"
| "apply_op s (CreateActivityLog now l) = snd (createActivityLog s now l)"

datatype entity = User | World | Character | Scene | ChatMessage | ActivityLog

text \<open>The entity a create returns, with its type.\<close>

fun created :: "store \<Rightarrow> op \<Rightarrow> (entity \<times> obj) option" where
  "created s (CreateUser u) = Some (User, fst (createUser s u))"
| "created s (CreateWorld now w) = Some (World, fst (createWorld s now w))"
| "created s (CreateCharacter now c) = Some (Character, fst (createCharacter s now c))"
| "created s (CreateScene now c) = Some (Scene, fst (createScene s now c))"
| "created s (CreateChatMessage now m) = Some (ChatMessage, fst (createChatMessage s now m))"
| "created s (CreateActivityLog now l) = Some (ActivityLog, fst (createActivityLog s now l))"
| "created s other = None"

text \<open>The \<open>id\<close> fields of the entities of one type returned during a run, in order.\<close>

fun returned_ids :: "entity \<Rightarrow> store \<Rightarrow> op list \<Rightarrow> jsval list" where
  "returned_ids e s [] = []"
| "returned_ids e s (x # xs) =
     (case created s x of
        None \<Rightarrow> returned_ids e (apply_op s x) xs
      | Some (e', entity) \<Rightarrow>
          if e' = e then fld entity ''id'' # returned_ids e (apply_op s x) xs
          else returned_ids e (apply_op s x) xs)"

text \<open>The type of entity a call creates, and the number of creates of one type in a run.\<close>

fun makes :: "op \<Rightarrow> entity option" where
  "makes (CreateUser u) = Some User"
| "makes (CreateWorld now w) = Some World"
| "makes (CreateCharacter now c) = Some Character"
| "makes (CreateScene now c) = Some Scene"
| "makes (CreateChatMessage now m) = Some ChatMessage"
| "makes (CreateActivityLog now l) = Some ActivityLog"
| "makes other = None"

definition creates :: "entity \<Rightarrow> op list \<Rightarrow> nat" where
  "creates e xs = length (filter (\<lambda>x. makes x = Some e) xs)"

text \<open>The counter of an entity type.\<close>

fun counter :: "entity \<Rightarrow> store \<Rightarrow> int" where
  "counter User s = userIdCounter s"
| "counter World s = worldIdCounter s"
| "counter Character s = characterIdCounter s"
| "counter Scene s = sceneIdCounter s"
| "counter ChatMessage s = chatMessageIdCounter s"
| "counter ActivityLog s = activityLogIdCounter s"

text \<open>The keys of the map of an entity type.\<close>

fun keys_of :: "entity \<Rightarrow> store \<Rightarrow> int list" where
  "keys_of User s = map fst (users s)"
| "keys_of World s = map fst (worlds s)"
| "keys_of Character s = map fst (characters s)"
| "keys_of Scene s = map fst (scenes s)"
| "keys_of ChatMessage s = map fst (chatMessages s)"
| "keys_of ActivityLog s = map fst (activityLogs s)"

subsection \<open>Referential integrity\<close>

text \<open>
  A value names a key of a map when a lookup under it finds an entry: it is the number
  of one of the keys. An entity refers to an existing world (character) when its
  \<open>worldId\<close> (\<open>characterId\<close>) names a key of the map of worlds (characters).
\<close>

definition names_key :: "int list \<Rightarrow> jsval \<Rightarrow> bool" where
  "names_key ks v = list_ex (\<lambda>k. strict_eq v (JNum (of_int k))) ks"

definition world_exists :: "store \<Rightarrow> jsval \<Rightarrow> bool" where
  "world_exists s v = names_key (map fst (worlds s)) v"

definition character_exists :: "store \<Rightarrow> jsval \<Rightarrow> bool" where
  "character_exists s v = names_key (map fst (characters s)) v"

definition refs_in :: "int list \<Rightarrow> string \<Rightarrow> obj list \<Rightarrow> bool" where
  "refs_in ks key xs = list_all (\<lambda>e. names_key ks (fld e key)) xs"

definition referential_integrity :: "store \<Rightarrow> bool" where
  "referential_integrity s =
     (refs_in (map fst (worlds s)) ''worldId'' (map_values (characters s)) \<and>
      refs_in (map fst (worlds s)) ''worldId'' (map_values (scenes s)) \<and>
      refs_in (map fst (worlds s)) ''worldId'' (map_values (activityLogs s)) \<and>
      refs_in (map fst (characters s)) ''characterId'' (map_values (chatMessages s)))"

text \<open>Every chat message and every activity entry carries a date in \<open>createdAt\<close>.\<close>

definition dated :: "obj \<Rightarrow> bool" where
  "dated e = (case e ''createdAt'' of Some (JDate t) \<Rightarrow> True | _ \<Rightarrow> False)"

definition all_dated :: "store \<Rightarrow> bool" where
  "all_dated s =
     (list_all dated (map_values (chatMessages s)) \<and> list_all dated (map_values (activityLogs s)))"

text \<open>
  The calls that cannot break it: a create or an update that names an existing parent,
  a delete of a parent nothing refers to, and every call that touches no reference.
\<close>

definition refers_to :: "string \<Rightarrow> int \<Rightarrow> obj js_map \<Rightarrow> bool" where
  "refers_to key i m = list_ex (\<lambda>e. strict_eq (fld e key) (JNum (of_int i))) (map_values m)"

fun keeps_references :: "store \<Rightarrow> op \<Rightarrow> bool" where
  "keeps_references s (CreateCharacter now c) = world_exists s (fld c ''worldId'')"
| "keeps_references s (CreateScene now c) = world_exists s (fld c ''worldId'')"
| "keeps_references s (CreateActivityLog now l) = world_exists s (fld l ''worldId'')"
| "keeps_references s (CreateChatMessage now m) = character_exists s (fld m ''characterId'')"
| "keeps_references s (UpdateCharacter i d) =
     (d ''worldId'' = None \<or> world_exists s (fld d ''worldId''))"
| "keeps_references s (UpdateScene i d) =
     (d ''worldId'' = None \<or> world_exists s (fld d ''worldId''))"
| "keeps_references s (DeleteWorld i) =
     (\<not> refers_to ''worldId'' i (characters s) \<and> \<not> refers_to ''worldId'' i (scenes s) \<and>
      \<not> refers_to ''worldId'' i (activityLogs s))"
| "keeps_references s (DeleteCharacter i) = (\<not> refers_to ''characterId'' i (chatMessages s))"
| "keeps_references s other = True"

section \<open>Instances of the parameters\<close>

text \<open>
  To run the model on concrete inputs the parameters need values. The instances below
  answer as the language and the library do on the inputs named with each of them; the
  runs in this theory reach them on no other input.
\<close>

definition sample_clock :: "nat \<Rightarrow> int" where
  "sample_clock k = 1700000000000 + int k"

text \<open>\<open>ToString\<close> of \<open>undefined\<close>, \<open>null\<close> and the booleans.\<close>

definition sample_ToString :: "jsval \<Rightarrow> exn + string" where
  "sample_ToString v =
     (case v of
        JUndefined \<Rightarrow> Inr ''undefined''
      | JNull \<Rightarrow> Inr ''null''
      | JBool b \<Rightarrow> Inr (if b then ''true'' else ''false'')
      | _ \<Rightarrow> Inl TypeError)"

text \<open>
  \<open>parseInt\<close> of an integer number (of fewer than 22 digits) and of a string that starts
  with decimal digits.
\<close>

fun digits_value :: "int \<Rightarrow> string \<Rightarrow> int" where
  "digits_value acc [] = acc"
| "digits_value acc (c # cs) =
     (if c \<in> set ''0123456789''
      then digits_value (10 * acc + int (length (takeWhile (\<lambda>d. d \<noteq> c) ''0123456789''))) cs
      else acc)"

definition sample_parseInt :: "jsval \<Rightarrow> int option" where
  "sample_parseInt v =
     (case v of
        JNum n \<Rightarrow> if of_int \<lfloor>n\<rfloor> = n then Some \<lfloor>n\<rfloor> else None
      | JStr s \<Rightarrow> if s \<noteq> [] \<and> hd s \<in> set ''0123456789'' then Some (digits_value 0 s) else None
      | _ \<Rightarrow> None)"

text \<open>\<open>JSON.parse\<close> of the three literal names, and of text that starts with a letter other
  than theirs (which is not JSON).\<close>

definition sample_JSON_parse :: "string \<Rightarrow> jsval option" where
  "sample_JSON_parse s =
     (if s = ''null'' then Some JNull
      else if s = ''true'' then Some (JBool True)
      else if s = ''false'' then Some (JBool False)
      else None)"

text \<open>
  The time value of \<open>new Date(v)\<close> for an integer number of milliseconds within the range
  of dates.
\<close>

definition sample_Date_value :: "jsval \<Rightarrow> int option" where
  "sample_Date_value v =
     (case v of
        JNum n \<Rightarrow>
          if of_int \<lfloor>n\<rfloor> = n \<and> \<bar>n\<bar> \<le> 8640000000000000 then Some \<lfloor>n\<rfloor> else None
      | _ \<Rightarrow> None)"

definition sample_builtins :: builtins where
  "sample_builtins =
     \<lparr>ToString = sample_ToString, parseInt = sample_parseInt,
      JSON_parse = sample_JSON_parse, Date_value = sample_Date_value\<rparr>"

text \<open>\<open>Object.entries\<close> of a value without own properties.\<close>

definition sample_entries :: "jsval \<Rightarrow> (string \<times> jsval) list" where
  "sample_entries v = []"

text \<open>\<open>trim\<close> of ASCII text.\<close>

definition ascii_space :: "char \<Rightarrow> bool" where
  "ascii_space c = (c \<in> set [CHR 0x09, CHR 0x0A, CHR 0x0B, CHR 0x0C, CHR 0x0D, CHR 0x20])"

definition sample_trim :: "string \<Rightarrow> string" where
  "sample_trim s = rev (dropWhile ascii_space (rev (dropWhile ascii_space s)))"

text \<open>
  The insert schemas on an object that gives every required column a value of its type
  and no optional column: the result keeps the columns of the schema and drops every
  other key. Any other input is refused here.
\<close>

definition pick :: "string list \<Rightarrow> obj \<Rightarrow> obj" where
  "pick ks m = (\<lambda>k. if k \<in> set ks then m k else None)"

definition is_integer :: "jsval \<Rightarrow> bool" where
  "is_integer v = (case v of JNum n \<Rightarrow> of_int \<lfloor>n\<rfloor> = n | _ \<Rightarrow> False)"

definition is_string :: "jsval \<Rightarrow> bool" where
  "is_string v = (case v of JStr s \<Rightarrow> True | _ \<Rightarrow> False)"

definition sample_insertWorldSchema :: "jsval \<Rightarrow> jsval + obj" where
  "sample_insertWorldSchema v =
     (case v of
        JObj m \<Rightarrow>
          if is_integer (fld m ''userId'') \<and> is_string (fld m ''name'') \<and>
             is_string (fld m ''description'')
          then Inr (pick [''userId'', ''name'', ''description''] m)
          else Inl (JArr [])
      | _ \<Rightarrow> Inl (JArr []))"

definition sample_insertCharacterSchema :: "jsval \<Rightarrow> jsval + obj" where
  "sample_insertCharacterSchema v =
     (case v of
        JObj m \<Rightarrow>
          if is_integer (fld m ''worldId'') \<and> is_string (fld m ''name'') \<and>
             is_string (fld m ''role'') \<and> is_string (fld m ''personality'') \<and>
             m ''appearance'' = None \<and> m ''backstory'' = None
          then Inr (pick [''worldId'', ''name'', ''role'', ''personality'', ''memory''] m)
          else Inl (JArr [])
      | _ \<Rightarrow> Inl (JArr []))"

definition sample_schemas :: schemas where
  "sample_schemas =
     \<lparr>insertWorldSchema = sample_insertWorldSchema,
      insertCharacterSchema = sample_insertCharacterSchema\<rparr>"

text \<open>A process without the credential, and one with it whose every request is rejected.\<close>

definition world_without_key :: world where
  "world_without_key =
     \<lparr>GEMINI_API_KEY = None, replies = (\<lambda>k. Rejected), sent = [], console = []\<rparr>"

definition world_offline :: world where
  "world_offline =
     \<lparr>GEMINI_API_KEY = Some ''k'', replies = (\<lambda>k. Rejected), sent = [], console = []\<rparr>"

definition demo_store :: store where
  "demo_store = MemStorage_new sample_clock"

text \<open>A field of the result of a lookup (\<open>undefined\<close> when nothing was found).\<close>

definition fld_of :: "obj option \<Rightarrow> string \<Rightarrow> jsval" where
  "fld_of r k = (case r of None \<Rightarrow> JUndefined | Some e \<Rightarrow> fld e k)"

text \<open>The memory document of the character stored under an id.\<close>

definition memory_of :: "store \<Rightarrow> int \<Rightarrow> jsval" where
  "memory_of s i = (case getCharacter s i of None \<Rightarrow> JUndefined | Some c \<Rightarrow> fld c ''memory'')"

text \<open>A field of the character, and of the chat message, stored under an id.\<close>

definition character_field :: "store \<Rightarrow> int \<Rightarrow> string \<Rightarrow> jsval" where
  "character_field s i k = (case getCharacter s i of None \<Rightarrow> JUndefined | Some c \<Rightarrow> fld c k)"

definition message_field :: "store \<Rightarrow> int \<Rightarrow> string \<Rightarrow> jsval" where
  "message_field s i k = (case map_of (chatMessages s) i of None \<Rightarrow> JUndefined | Some m \<Rightarrow> fld m k)"

text \<open>
  A process with the credential whose every request is answered with the same JSON
  value; a reply whose first part is a function call and carries no \<open>text\<close>; and a reply
  whose text is fenced and is not JSON.
\<close>

definition world_with_reply :: "jsval \<Rightarrow> world" where
  "world_with_reply v =
     \<lparr>GEMINI_API_KEY = Some ''k'', replies = (\<lambda>k. Json v), sent = [], console = []\<rparr>"

definition textless_reply :: jsval where
  "textless_reply =
     JObj [''candidates'' \<mapsto>
       JArr [JObj [''content'' \<mapsto>
         JObj [''parts'' \<mapsto>
           JArr [JObj [''functionCall'' \<mapsto>
             JObj [''name'' \<mapsto> JStr ''lookup'', ''args'' \<mapsto> JObj Map.empty]]]]]]]"

definition fenced_text :: string where
  "fenced_text = ''```json\<newline>I feel happy\<newline>```''"

definition fenced_reply :: jsval where
  "fenced_reply =
     JObj [''candidates'' \<mapsto>
       JArr [JObj [''content'' \<mapsto> JObj [''parts'' \<mapsto> JArr [JObj [''text'' \<mapsto> JStr fenced_text]]]]]]"

text \<open>
  The request body \<open>{characterId: 1}\<close>, and the demo store after
  PATCH /api/characters/1 with the body \<open>{id: 99}\<close>.
\<close>

definition characterId_1 :: jsval where
  "characterId_1 = JObj [''characterId'' \<mapsto> JNum 1]"

definition renumbered_store :: store where
  "renumbered_store =
     snd (patch_character sample_builtins demo_store ''1'' (JObj [''id'' \<mapsto> JNum 99]) 1700000000100)"

text \<open>
  The time value by which the listings sort an entity, and whether it has one (a date
  always has; so has every entity as \<open>create\<close> made it).
\<close>

definition timed :: "builtins \<Rightarrow> obj \<Rightarrow> bool" where
  "timed rt e = (getTime rt (fld e ''createdAt'') \<noteq> None)"

definition created_time :: "builtins \<Rightarrow> obj \<Rightarrow> int" where
  "created_time rt e = (case getTime rt (fld e ''createdAt'') of None \<Rightarrow> 0 | Some t \<Rightarrow> t)"

definition of_world :: "int \<Rightarrow> obj \<Rightarrow> bool" where
  "of_world w e = strict_eq (fld e ''worldId'') (JNum (of_int w))"

definition of_character :: "jsval \<Rightarrow> obj \<Rightarrow> bool" where
  "of_character c e = strict_eq (fld e ''characterId'') c"

text \<open>
  The activity entries that POST /api/worlds and POST /api/characters write, for the
  entity they created.
\<close>

definition world_log :: "obj \<Rightarrow> string \<Rightarrow> int \<Rightarrow> int \<Rightarrow> obj" where
  "world_log world name l t =
     [''worldId'' \<mapsto> fld world ''id'', ''activityType'' \<mapsto> JStr ''WORLD_CREATED'',
      ''entityId'' \<mapsto> fld world ''id'', ''description'' \<mapsto> JStr (''Created world '' @ name),
      ''id'' \<mapsto> JNum (of_int l), ''createdAt'' \<mapsto> JDate t]"

definition character_log :: "obj \<Rightarrow> string \<Rightarrow> int \<Rightarrow> int \<Rightarrow> obj" where
  "character_log character name l t =
     [''worldId'' \<mapsto> fld character ''worldId'', ''activityType'' \<mapsto> JStr ''CHARACTER_CREATED'',
      ''entityId'' \<mapsto> fld character ''id'',
      ''description'' \<mapsto> JStr (''Created character '' @ name),
      ''id'' \<mapsto> JNum (of_int l), ''createdAt'' \<mapsto> JDate t]"

text \<open>The status of a response, and the \<open>activityType\<close> of each entry of a listing.\<close>

definition status :: "response \<Rightarrow> nat" where
  "status r = (case r of Response code payload \<Rightarrow> code)"

definition activity_types :: "response \<Rightarrow> jsval list" where
  "activity_types r =
     (case r of
        Response code (JArr xs) \<Rightarrow>
          map (\<lambda>x. case x of JObj m \<Rightarrow> fld m ''activityType'' | _ \<Rightarrow> JUndefined) xs
      | _ \<Rightarrow> [])"

text \<open>
  The two requests of the end-to-end scenario on the demo store, the entities they
  create when the clock reads \<open>t\<close>, and the stores they leave.
\<close>

definition test_world_body :: jsval where
  "test_world_body =
     JObj [''name'' \<mapsto> JStr ''Test'',
           ''description'' \<mapsto> JStr ''A test world with enough characters.'']"

definition hero_body :: jsval where
  "hero_body =
     JObj [''worldId'' \<mapsto> JNum 4, ''name'' \<mapsto> JStr ''Hero'', ''role'' \<mapsto> JStr ''Knight'',
           ''personality'' \<mapsto> JStr ''Brave and loyal to a fault.'', ''memory'' \<mapsto> JObj Map.empty]"

definition test_world :: "int \<Rightarrow> obj" where
  "test_world t =
     [''userId'' \<mapsto> JNum 1, ''name'' \<mapsto> JStr ''Test'',
      ''description'' \<mapsto> JStr ''A test world with enough characters.'',
      ''id'' \<mapsto> JNum 4, ''createdAt'' \<mapsto> JDate t]"

definition hero :: "int \<Rightarrow> obj" where
  "hero t =
     [''worldId'' \<mapsto> JNum 4, ''name'' \<mapsto> JStr ''Hero'', ''role'' \<mapsto> JStr ''Knight'',
      ''personality'' \<mapsto> JStr ''Brave and loyal to a fault.'', ''memory'' \<mapsto> JObj Map.empty,
      ''id'' \<mapsto> JNum 4, ''createdAt'' \<mapsto> JDate t]"

definition after_post_worlds :: "int \<Rightarrow> int \<Rightarrow> store" where
  "after_post_worlds t1 t2 =
     snd (post_worlds sample_schemas sample_builtins demo_store test_world_body t1 t2)"

definition after_post_characters :: "int \<Rightarrow> int \<Rightarrow> int \<Rightarrow> int \<Rightarrow> store" where
  "after_post_characters t1 t2 t3 t4 =
     snd (post_characters sample_schemas sample_builtins (after_post_worlds t1 t2) hero_body t3 t4)"

section \<open>Properties of the store\<close>

lemma demo_store_eq:
  "MemStorage_new clock =
     \<lparr>users = [(1, demoUser 1)],
      worlds = [(1, etherealIsles clock 1 1), (2, neonDistrict clock 2 1),
                (3, corsairsRealm clock 3 1)],
      characters = [(1, lyra clock 1 1), (2, cipher clock 2 2), (3, blackthorne clock 3 3)],
      scenes = [(1, krakenScene clock 1 3 3)],
      chatMessages =
        [(1, (demo_message 1 1 False chatMessage1_content
                (clock 13 - 2 * 24 * 60 * 60 * 1000 - 600000))(''id'' \<mapsto> JNum 1)),
         (2, (demo_message 1 1 True chatMessage2_content
                (clock 14 - 2 * 24 * 60 * 60 * 1000 - 540000))(''id'' \<mapsto> JNum 2)),
         (3, (demo_message 1 1 False chatMessage3_content
                (clock 15 - 2 * 24 * 60 * 60 * 1000 - 480000))(''id'' \<mapsto> JNum 3)),
         (4, (demo_message 1 1 True chatMessage4_content
                (clock 16 - 2 * 24 * 60 * 60 * 1000 - 420000))(''id'' \<mapsto> JNum 4)),
         (5, (demo_message 1 1 False chatMessage5_content
                (clock 17 - 2 * 24 * 60 * 60 * 1000 - 360000))(''id'' \<mapsto> JNum 5))],
      activityLogs =
        [(1, (activity 1 ''CHARACTER_CREATED'' 1 ''Created character Lyra Nightshade''
                (clock 7 - 14 * 24 * 60 * 60 * 1000))(''id'' \<mapsto> JNum 1)),
         (2, (activity 2 ''CHARACTER_CREATED'' 2 ''Created character Cipher_9''
                (clock 8 - 9 * 24 * 60 * 60 * 1000))(''id'' \<mapsto> JNum 2)),
         (3, (activity 3 ''CHARACTER_CREATED'' 3 ''Created character Capt. Blackthorne''
                (clock 9 - 4 * 24 * 60 * 60 * 1000))(''id'' \<mapsto> JNum 3)),
         (4, (activity 3 ''SCENE_CREATED'' 1 ''Created scene The Kraken's Call''
                (clock 10 - 3 * 24 * 60 * 60 * 1000))(''id'' \<mapsto> JNum 4)),
         (5, (activity 1 ''CHARACTER_CHAT'' 1 ''Conversation with Lyra''
                (clock 11 - 2 * 24 * 60 * 60 * 1000))(''id'' \<mapsto> JNum 5)),
         (6, (activity 1 ''WORLD_UPDATED'' 1 ''Added Floating Bazaar location''
                (clock 12 - 1 * 24 * 60 * 60 * 1000))(''id'' \<mapsto> JNum 6))],
      userIdCounter = 2, worldIdCounter = 4, characterIdCounter = 4, sceneIdCounter = 2,
      chatMessageIdCounter = 6, activityLogIdCounter = 7\<rparr>"
  by (simp add: MemStorage_new_def initDemoData_def empty_store_def Let_def
      add_demo_log_def add_demo_message_def)

text \<open>
  C6. For World, Character and Scene: an update under an id that the store does not hold
  returns \<open>undefined\<close> and leaves the whole store as it was (so it creates nothing).
\<close>

theorem update_absent_id_unchanged:
  "(getWorld s i = None \<longrightarrow> updateWorld s i d = (None, s)) \<and>
   (getCharacter s i = None \<longrightarrow> updateCharacter s i d = (None, s)) \<and>
   (getScene s i = None \<longrightarrow> updateScene s i d = (None, s))"
  by (simp add: getWorld_def getCharacter_def getScene_def
      updateWorld_def updateCharacter_def updateScene_def)

theorem update_absent_id_unchanged_witness:
  "getWorld demo_store 99 = None \<and> getCharacter demo_store 99 = None \<and>
   getScene demo_store 99 = None \<and>
   updateWorld demo_store 99 [''name'' \<mapsto> JStr ''Atlantis''] = (None, demo_store) \<and>
   updateCharacter demo_store 99 [''name'' \<mapsto> JStr ''Atlantis''] = (None, demo_store) \<and>
   updateScene demo_store 99 [''name'' \<mapsto> JStr ''Atlantis''] = (None, demo_store)"
proof -
  have absent: "getWorld demo_store 99 = None" "getCharacter demo_store 99 = None"
    "getScene demo_store 99 = None"
    by (simp_all add: demo_store_def demo_store_eq getWorld_def getCharacter_def getScene_def)
  with update_absent_id_unchanged [of demo_store 99 "[''name'' \<mapsto> JStr ''Atlantis'']"]
  show ?thesis by simp
qed

text \<open>Lookups in a map after \<open>set\<close>, and the fields of a spread of two objects.\<close>

lemma map_of_update_same: "map_of (AList.update k v al) k = Some v"
  by (simp add: update_conv')

lemma map_of_update_other: "j \<noteq> k \<Longrightarrow> map_of (AList.update k v al) j = map_of al j"
  by (simp add: update_conv')

lemma map_add_fields: "(m ++ d) k = (case d k of None \<Rightarrow> m k | Some v \<Rightarrow> Some v)"
  by (simp add: map_add_def)

lemma demo_world1: "getWorld demo_store 1 = Some (etherealIsles sample_clock 1 1)"
  by (simp add: demo_store_def demo_store_eq getWorld_def)

lemma demo_char1: "getCharacter demo_store 1 = Some (lyra sample_clock 1 1)"
  by (simp add: demo_store_def demo_store_eq getCharacter_def)

text \<open>
  C10. For World, Character and Scene and an id \<open>i\<close> that the store holds: the update
  returns and stores under \<open>i\<close> the shallow merge of the old record with the data. A field
  that the data does not name keeps its value; a field that the data names, the
  server-assigned \<open>id\<close> and \<open>createdAt\<close> among them, takes the caller's value; every other
  entry and every other part of the store stays as it was. In particular an update with
  the data \<open>{id: i + 1}\<close> leaves under the key \<open>i\<close> a record whose \<open>id\<close> field is \<open>i + 1\<close>.
\<close>

theorem update_is_shallow_merge:
  "(getWorld s i = Some old \<longrightarrow>
      (\<exists>r. updateWorld s i d = (Some r, s\<lparr>worlds := AList.update i r (worlds s)\<rparr>) \<and>
           getWorld (snd (updateWorld s i d)) i = Some r \<and>
           (\<forall>k. r k = (case d k of None \<Rightarrow> old k | Some v \<Rightarrow> Some v)) \<and>
           (\<forall>j. j \<noteq> i \<longrightarrow> getWorld (snd (updateWorld s i d)) j = getWorld s j))) \<and>
   (getCharacter s i = Some old \<longrightarrow>
      (\<exists>r. updateCharacter s i d = (Some r, s\<lparr>characters := AList.update i r (characters s)\<rparr>) \<and>
           getCharacter (snd (updateCharacter s i d)) i = Some r \<and>
           (\<forall>k. r k = (case d k of None \<Rightarrow> old k | Some v \<Rightarrow> Some v)) \<and>
           (\<forall>j. j \<noteq> i \<longrightarrow> getCharacter (snd (updateCharacter s i d)) j = getCharacter s j))) \<and>
   (getScene s i = Some old \<longrightarrow>
      (\<exists>r. updateScene s i d = (Some r, s\<lparr>scenes := AList.update i r (scenes s)\<rparr>) \<and>
           getScene (snd (updateScene s i d)) i = Some r \<and>
           (\<forall>k. r k = (case d k of None \<Rightarrow> old k | Some v \<Rightarrow> Some v)) \<and>
           (\<forall>j. j \<noteq> i \<longrightarrow> getScene (snd (updateScene s i d)) j = getScene s j))) \<and>
   (getWorld s i = Some old \<longrightarrow>
      fld_of (getWorld (snd (updateWorld s i [''id'' \<mapsto> JNum (of_int (i + 1))])) i) ''id''
        = JNum (of_int (i + 1))) \<and>
   (getCharacter s i = Some old \<longrightarrow>
      fld_of (getCharacter (snd (updateCharacter s i [''id'' \<mapsto> JNum (of_int (i + 1))])) i) ''id''
        = JNum (of_int (i + 1))) \<and>
   (getScene s i = Some old \<longrightarrow>
      fld_of (getScene (snd (updateScene s i [''id'' \<mapsto> JNum (of_int (i + 1))])) i) ''id''
        = JNum (of_int (i + 1)))"
  by (simp add: getWorld_def getCharacter_def getScene_def
      updateWorld_def updateCharacter_def updateScene_def Let_def
      map_of_update_same map_of_update_other map_add_fields fld_of_def fld_def)

theorem update_is_shallow_merge_witness:
  "getWorld demo_store 1 = Some (etherealIsles sample_clock 1 1) \<and>
   (\<exists>r. getWorld (snd (updateWorld demo_store 1 [''id'' \<mapsto> JNum 99, ''createdAt'' \<mapsto> JNull])) 1 = Some r \<and>
        fld r ''id'' = JNum 99 \<and> fld r ''createdAt'' = JNull \<and>
        fld r ''name'' = JStr ''Ethereal Isles'')"
proof -
  from update_is_shallow_merge [of demo_store 1 "etherealIsles sample_clock 1 1"
      "[''id'' \<mapsto> JNum 99, ''createdAt'' \<mapsto> JNull]"] demo_world1
  obtain r where r: "getWorld (snd (updateWorld demo_store 1 [''id'' \<mapsto> JNum 99, ''createdAt'' \<mapsto> JNull])) 1 = Some r"
    and f: "\<forall>k. r k = (case [''id'' \<mapsto> JNum 99, ''createdAt'' \<mapsto> JNull] k of
                 None \<Rightarrow> etherealIsles sample_clock 1 1 k | Some v \<Rightarrow> Some v)"
    by blast
  have "fld r ''id'' = JNum 99" "fld r ''createdAt'' = JNull" "fld r ''name'' = JStr ''Ethereal Isles''"
    by (simp_all add: fld_def f etherealIsles_def)
  with r demo_world1 show ?thesis by blast
qed

text \<open>
  C1, as stated, fails: the store operation \<open>updateCharacterMemory\<close> puts the document it is
  given in the place of the memory. After \<open>{a: 1}\<close> the memory holds \<open>a\<close>; after \<open>{b: 2}\<close>
  it no longer does.
\<close>

theorem store_memory_update_replaces:
  "js_get (memory_of (snd (updateCharacterMemory demo_store 1 (JObj [''a'' \<mapsto> JNum 1]))) 1) ''a''
     = Inr (JNum 1) \<and>
   js_get (memory_of (snd (updateCharacterMemory
       (snd (updateCharacterMemory demo_store 1 (JObj [''a'' \<mapsto> JNum 1]))) 1
       (JObj [''b'' \<mapsto> JNum 2]))) 1) ''a'' = Inr JUndefined"
  by (simp add: demo_store_def demo_store_eq updateCharacterMemory_def memory_of_def
      getCharacter_def Let_def fld_def)


text \<open>
  C1, amended. The merge is made by the route PATCH /api/characters/:id/memory, which
  reads the character, spreads its memory (\<open>{}\<close> when that is falsy) and the request body
  into a new document, body keys winning, and hands the result to the store operation.
  For a character that exists the route answers 200 with the character it stored; every
  field but \<open>memory\<close> is unchanged; and each key of the new memory has the body's value
  when the body names it and the old memory's value otherwise.
\<close>

theorem memory_route_merges:
  assumes "parseInt rt (JStr p) = Some i" and "getCharacter s i = Some c"
  shows "\<exists>c' s' m. patch_character_memory rt s p req_body = (Response 200 (JObj c'), s') \<and>
           getCharacter s' i = Some c' \<and>
           (\<forall>k. k \<noteq> ''memory'' \<longrightarrow> c' k = c k) \<and>
           c' ''memory'' = Some (JObj m) \<and>
           (\<forall>k. m k = (case spread req_body k of
                         None \<Rightarrow> spread (current_memory c) k
                       | Some v \<Rightarrow> Some v))"
  using assms
  by (simp add: patch_character_memory_def updateCharacterMemory_def getCharacter_def Let_def
      map_of_update_same map_add_fields)

theorem memory_route_merges_witness:
  "parseInt sample_builtins (JStr ''1'') = Some 1 \<and>
   getCharacter demo_store 1 = Some (lyra sample_clock 1 1) \<and>
   js_get (memory_of (snd (patch_character_memory sample_builtins
       (snd (patch_character_memory sample_builtins demo_store ''1'' (JObj [''a'' \<mapsto> JNum 1])))
       ''1'' (JObj [''b'' \<mapsto> JNum 2]))) 1) ''a'' = Inr (JNum 1) \<and>
   js_get (memory_of (snd (patch_character_memory sample_builtins
       (snd (patch_character_memory sample_builtins demo_store ''1'' (JObj [''a'' \<mapsto> JNum 1])))
       ''1'' (JObj [''b'' \<mapsto> JNum 2]))) 1) ''b'' = Inr (JNum 2)"
proof -
  have p: "parseInt sample_builtins (JStr ''1'') = Some 1"
    by (simp add: sample_builtins_def sample_parseInt_def)
  from memory_route_merges [OF p demo_char1, of "JObj [''a'' \<mapsto> JNum 1]"]
  obtain c1 s1 m1 where
    r1: "patch_character_memory sample_builtins demo_store ''1'' (JObj [''a'' \<mapsto> JNum 1])
           = (Response 200 (JObj c1), s1)"
    and g1: "getCharacter s1 1 = Some c1" and c1: "c1 ''memory'' = Some (JObj m1)"
    and m1: "\<forall>k. m1 k = (case spread (JObj [''a'' \<mapsto> JNum 1]) k of
                 None \<Rightarrow> spread (current_memory (lyra sample_clock 1 1)) k | Some v \<Rightarrow> Some v)"
    by blast
  from memory_route_merges [OF p g1, of "JObj [''b'' \<mapsto> JNum 2]"]
  obtain c2 s2 m2 where
    r2: "patch_character_memory sample_builtins s1 ''1'' (JObj [''b'' \<mapsto> JNum 2])
           = (Response 200 (JObj c2), s2)"
    and g2: "getCharacter s2 1 = Some c2" and c2: "c2 ''memory'' = Some (JObj m2)"
    and m2: "\<forall>k. m2 k = (case spread (JObj [''b'' \<mapsto> JNum 2]) k of
                 None \<Rightarrow> spread (current_memory c1) k | Some v \<Rightarrow> Some v)"
    by blast
  have "m2 ''a'' = Some (JNum 1)" "m2 ''b'' = Some (JNum 2)"
    by (simp_all add: m2 m1 current_memory_def fld_def c1)
  then show ?thesis
    using p demo_char1 r1 r2 g2 c2 by (simp add: memory_of_def fld_def)
qed

section \<open>Properties of the listings\<close>

text \<open>
  When every entity to be sorted has a time value the comparator is consistent, and the
  sort is the stable sort by that key.
\<close>

lemma js_insert_newest:
  "timed rt x \<Longrightarrow> list_all (timed rt) ys \<Longrightarrow>
   js_insert (newest_first rt) x ys = insort_key (\<lambda>e. - created_time rt e) x ys"
  by (induction ys)
     (auto simp: timed_def created_time_def newest_first_def num_sub_def sort_order_def)

lemma js_insert_oldest:
  "timed rt x \<Longrightarrow> list_all (timed rt) ys \<Longrightarrow>
   js_insert (oldest_first rt) x ys = insort_key (created_time rt) x ys"
  by (induction ys)
     (auto simp: timed_def created_time_def oldest_first_def num_sub_def sort_order_def)

lemma js_sort_newest:
  "list_all (timed rt) xs \<Longrightarrow>
   js_sort (newest_first rt) xs = sort_key (\<lambda>e. - created_time rt e) xs"
proof (induction xs)
  case Nil
  then show ?case by (simp add: js_sort_def)
next
  case (Cons x xs)
  then have "list_all (timed rt) (sort_key (\<lambda>e. - created_time rt e) xs)"
    by (simp add: list_all_iff)
  with Cons show ?case
    using js_insert_newest [of rt x "sort_key (\<lambda>e. - created_time rt e) xs"]
    by (simp add: js_sort_def sort_key_def)
qed

lemma js_sort_oldest:
  "list_all (timed rt) xs \<Longrightarrow> js_sort (oldest_first rt) xs = sort_key (created_time rt) xs"
proof (induction xs)
  case Nil
  then show ?case by (simp add: js_sort_def)
next
  case (Cons x xs)
  then have "list_all (timed rt) (sort_key (created_time rt) xs)"
    by (simp add: list_all_iff)
  with Cons show ?case
    using js_insert_oldest [of rt x "sort_key (created_time rt) xs"]
    by (simp add: js_sort_def sort_key_def)
qed

lemma newest_sorted:
  "sorted_wrt (\<lambda>a b. created_time rt b \<le> created_time rt a)
     (sort_key (\<lambda>e. - created_time rt e) xs)"
  using sorted_sort_key [of "\<lambda>e. - created_time rt e" xs]
  by (simp add: sorted_map)

lemma oldest_sorted:
  "sorted_wrt (\<lambda>a b. created_time rt a \<le> created_time rt b) (sort_key (created_time rt) xs)"
  using sorted_sort_key [of "created_time rt" xs]
  by (simp add: sorted_map)

lemma scenes_listing:
  assumes "list_all (timed rt) (filter (of_world w) (map_values (scenes s)))"
  shows "mset (getScenesByWorld rt s w) = mset (filter (of_world w) (map_values (scenes s)))"
    and "sorted_wrt (\<lambda>a b. created_time rt b \<le> created_time rt a) (getScenesByWorld rt s w)"
  using assms unfolding getScenesByWorld_def of_world_def [abs_def]
  by (simp_all add: js_sort_newest newest_sorted)

lemma messages_listing:
  assumes "list_all (timed rt) (filter (of_character c) (map_values (chatMessages s)))"
  shows "mset (getChatMessagesByCharacter rt s c) =
           mset (filter (of_character c) (map_values (chatMessages s)))"
    and "sorted_wrt (\<lambda>a b. created_time rt a \<le> created_time rt b)
           (getChatMessagesByCharacter rt s c)"
  using assms unfolding getChatMessagesByCharacter_def of_character_def [abs_def]
  by (simp_all add: js_sort_oldest oldest_sorted)

lemma logs_listing:
  assumes "list_all (timed rt) (filter (of_world w) (map_values (activityLogs s)))"
  shows "mset (getActivityLogsByWorld rt s w None) =
           mset (filter (of_world w) (map_values (activityLogs s)))"
    and "sorted_wrt (\<lambda>a b. created_time rt b \<le> created_time rt a)
           (getActivityLogsByWorld rt s w limit)"
    and "0 < n \<Longrightarrow> getActivityLogsByWorld rt s w (Some n) =
           take (nat n) (getActivityLogsByWorld rt s w None)"
    and "0 < n \<Longrightarrow> length (getActivityLogsByWorld rt s w (Some n)) \<le> nat n"
    and "getActivityLogsByWorld rt s w (Some 0) = getActivityLogsByWorld rt s w None"
  using assms unfolding getActivityLogsByWorld_def of_world_def [abs_def]
  by (simp_all add: js_sort_newest newest_sorted slice_to_def Let_def sorted_wrt_take
      split: option.splits)

lemma demo_logs_1:
  "getActivityLogsByWorld sample_builtins demo_store 1 None =
     [(activity 1 ''WORLD_UPDATED'' 1 ''Added Floating Bazaar location''
         (sample_clock 12 - 1 * 24 * 60 * 60 * 1000))(''id'' \<mapsto> JNum 6),
      (activity 1 ''CHARACTER_CHAT'' 1 ''Conversation with Lyra''
         (sample_clock 11 - 2 * 24 * 60 * 60 * 1000))(''id'' \<mapsto> JNum 5),
      (activity 1 ''CHARACTER_CREATED'' 1 ''Created character Lyra Nightshade''
         (sample_clock 7 - 14 * 24 * 60 * 60 * 1000))(''id'' \<mapsto> JNum 1)]"
  by (simp add: getActivityLogsByWorld_def demo_store_def demo_store_eq map_values_def
      activity_def fld_def js_sort_def newest_first_def getTime_def num_sub_def sort_order_def
      sample_clock_def)

lemma demo_timed:
  "list_all (timed sample_builtins) (filter (of_world 3) (map_values (scenes demo_store)))"
  "list_all (timed sample_builtins) (filter (of_character (JNum 1)) (map_values (chatMessages demo_store)))"
  "list_all (timed sample_builtins) (filter (of_world 1) (map_values (activityLogs demo_store)))"
  by (simp_all add: demo_store_def demo_store_eq map_values_def of_world_def of_character_def
      timed_def getTime_def fld_def krakenScene_def demo_message_def activity_def)

text \<open>
  C5, as stated, fails for the limit: \<open>if (limit)\<close> takes the limit 0 for no limit, and
  \<open>slice(0, limit)\<close> with a negative limit drops entries from the end. World 1 of the demo
  data has three log entries; the limit 0 returns all three, the limit -1 returns two.
\<close>

theorem limit_zero_returns_all:
  "length (getActivityLogsByWorld sample_builtins demo_store 1 (Some 0)) = 3 \<and>
   length (getActivityLogsByWorld sample_builtins demo_store 1 (Some (- 1))) = 2"
  by (simp add: getActivityLogsByWorld_def demo_logs_1 [unfolded getActivityLogsByWorld_def, simplified]
      slice_to_def Let_def)

text \<open>
  C5, amended. Where the \<open>createdAt\<close> of the entities concerned are time values (as \<open>create\<close>
  sets them): \<open>getScenesByWorld\<close> returns exactly the scenes of the world, newest first;
  \<open>getChatMessagesByCharacter\<close> returns exactly the messages of the character, oldest
  first; \<open>getActivityLogsByWorld\<close> without a limit returns exactly the logs of the world,
  and with any limit a list that is newest first; a limit \<open>n > 0\<close> returns the first \<open>n\<close>
  entries of the unlimited list, so at most \<open>n\<close>; the limit 0 returns the unlimited list.
\<close>

theorem listings_sorted:
  "(list_all (timed rt) (filter (of_world v) (map_values (scenes s))) \<longrightarrow>
      mset (getScenesByWorld rt s v) = mset (filter (of_world v) (map_values (scenes s))) \<and>
      sorted_wrt (\<lambda>a b. created_time rt b \<le> created_time rt a) (getScenesByWorld rt s v)) \<and>
   (list_all (timed rt) (filter (of_character c) (map_values (chatMessages s))) \<longrightarrow>
      mset (getChatMessagesByCharacter rt s c) =
        mset (filter (of_character c) (map_values (chatMessages s))) \<and>
      sorted_wrt (\<lambda>a b. created_time rt a \<le> created_time rt b)
        (getChatMessagesByCharacter rt s c)) \<and>
   (list_all (timed rt) (filter (of_world w) (map_values (activityLogs s))) \<longrightarrow>
      mset (getActivityLogsByWorld rt s w None) =
        mset (filter (of_world w) (map_values (activityLogs s))) \<and>
      sorted_wrt (\<lambda>a b. created_time rt b \<le> created_time rt a)
        (getActivityLogsByWorld rt s w limit) \<and>
      getActivityLogsByWorld rt s w (Some 0) = getActivityLogsByWorld rt s w None \<and>
      (0 < n \<longrightarrow>
         getActivityLogsByWorld rt s w (Some n) =
           take (nat n) (getActivityLogsByWorld rt s w None) \<and>
         length (getActivityLogsByWorld rt s w (Some n)) \<le> nat n))"
  using scenes_listing [of rt v s] messages_listing [of rt c s] logs_listing [of rt w s]
  by blast

theorem listings_sorted_witness:
  "list_all (timed sample_builtins) (filter (of_world 3) (map_values (scenes demo_store))) \<and>
   list_all (timed sample_builtins)
     (filter (of_character (JNum 1)) (map_values (chatMessages demo_store))) \<and>
   list_all (timed sample_builtins) (filter (of_world 1) (map_values (activityLogs demo_store))) \<and>
   mset (getScenesByWorld sample_builtins demo_store 3) =
     mset (filter (of_world 3) (map_values (scenes demo_store))) \<and>
   sorted_wrt (\<lambda>a b. created_time sample_builtins a \<le> created_time sample_builtins b)
     (getChatMessagesByCharacter sample_builtins demo_store (JNum 1)) \<and>
   length (getChatMessagesByCharacter sample_builtins demo_store (JNum 1)) = 5 \<and>
   sorted_wrt (\<lambda>a b. created_time sample_builtins b \<le> created_time sample_builtins a)
     (getActivityLogsByWorld sample_builtins demo_store 1 (Some 2)) \<and>
   map (\<lambda>e. fld e ''id'') (getActivityLogsByWorld sample_builtins demo_store 1 None) =
     [JNum 6, JNum 5, JNum 1] \<and>
   map (\<lambda>e. fld e ''id'') (getActivityLogsByWorld sample_builtins demo_store 1 (Some 2)) =
     [JNum 6, JNum 5] \<and>
   length (getActivityLogsByWorld sample_builtins demo_store 1 (Some 2)) \<le> nat 2"
proof -
  have pos: "(0::int) < 2" by simp
  from listings_sorted [of sample_builtins 3 demo_store "JNum 1" 1 "Some 2" 2] demo_timed pos
  have t: "mset (getScenesByWorld sample_builtins demo_store 3) =
      mset (filter (of_world 3) (map_values (scenes demo_store)))"
    "mset (getChatMessagesByCharacter sample_builtins demo_store (JNum 1)) =
      mset (filter (of_character (JNum 1)) (map_values (chatMessages demo_store)))"
    "sorted_wrt (\<lambda>a b. created_time sample_builtins a \<le> created_time sample_builtins b)
      (getChatMessagesByCharacter sample_builtins demo_store (JNum 1))"
    "sorted_wrt (\<lambda>a b. created_time sample_builtins b \<le> created_time sample_builtins a)
      (getActivityLogsByWorld sample_builtins demo_store 1 (Some 2))"
    "getActivityLogsByWorld sample_builtins demo_store 1 (Some 2) =
      take (nat 2) (getActivityLogsByWorld sample_builtins demo_store 1 None)"
    "length (getActivityLogsByWorld sample_builtins demo_store 1 (Some 2)) \<le> nat 2"
    by blast+
  have five: "length (filter (of_character (JNum 1)) (map_values (chatMessages demo_store))) = 5"
    by (simp add: demo_store_def demo_store_eq map_values_def of_character_def fld_def
        demo_message_def)
  have "length (getChatMessagesByCharacter sample_builtins demo_store (JNum 1)) = 5"
    using t(2) five by (metis size_mset)
  moreover have "map (\<lambda>e. fld e ''id'') (getActivityLogsByWorld sample_builtins demo_store 1 None) =
     [JNum 6, JNum 5, JNum 1]"
    by (simp add: demo_logs_1 fld_def)
  moreover have "map (\<lambda>e. fld e ''id'') (getActivityLogsByWorld sample_builtins demo_store 1 (Some 2)) =
     [JNum 6, JNum 5]"
    by (simp add: t(5) demo_logs_1 fld_def numeral_2_eq_2)
  ultimately show ?thesis using t demo_timed by simp
qed


section \<open>Properties of the analyzer and the generator\<close>

lemma index_props_first [simp]: "index_props (x # xs) ''0'' = Some x"
  by (simp add: index_props_def upt_rec)

lemma index_props_empty [simp]: "index_props [] k = None"
  by (simp add: index_props_def)

text \<open>
  C7. \<open>analyzeMoodFromText\<close> never throws; and it returns the neutral mood
  \<open>{mood: "neutral", intensity: 0.5, dominantColor: "#808080"}\<close> when the credential is
  missing (making no request then), when the request is rejected by the network, when the
  reply cannot be read as JSON, when the reply has no candidate list or an empty one,
  and when the text of the reply, its code fences removed and trimmed, is not JSON.
\<close>

theorem analyzeMood_neutral_on_failure:
  "(\<exists>v. fst (analyzeMoodFromText trim rt w text) = Inr v) \<and>
   (no_api_key w \<longrightarrow>
      fst (analyzeMoodFromText trim rt w text) = Inr neutral_mood \<and>
      sent (snd (analyzeMoodFromText trim rt w text)) = sent w) \<and>
   (replies w (length (sent w)) = Rejected \<longrightarrow>
      fst (analyzeMoodFromText trim rt w text) = Inr neutral_mood) \<and>
   (replies w (length (sent w)) = Unreadable \<longrightarrow>
      fst (analyzeMoodFromText trim rt w text) = Inr neutral_mood) \<and>
   (\<forall>data. replies w (length (sent w)) = Json data \<and> js_get data ''candidates'' = Inr JUndefined \<longrightarrow>
      fst (analyzeMoodFromText trim rt w text) = Inr neutral_mood) \<and>
   (\<forall>data. replies w (length (sent w)) = Json data \<and> js_get data ''candidates'' = Inr (JArr []) \<longrightarrow>
      fst (analyzeMoodFromText trim rt w text) = Inr neutral_mood) \<and>
   (\<forall>data t. replies w (length (sent w)) = Json data \<and> candidate_text data = Inr (JStr t) \<and>
       JSON_parse rt (trim (strip_fences t)) = None \<longrightarrow>
      fst (analyzeMoodFromText trim rt w text) = Inr neutral_mood)"
  by (auto simp: analyzeMoodFromText_def analyze_try_def fetch_def response_json_def
      parse_mood_def console_error_def no_candidate_def bind_exn_def Let_def
      split: sum.splits prod.splits reply.splits bool.splits jsval.splits option.splits if_splits)

lemma strip_fenced: "sample_trim (strip_fences fenced_text) = ''I feel happy''"
  by (simp add: fenced_text_def sample_trim_def ascii_space_def)

theorem analyzeMood_neutral_on_failure_witness:
  "no_api_key world_without_key \<and>
   fst (analyzeMoodFromText sample_trim sample_builtins world_without_key (JStr ''Hello'')) = Inr neutral_mood \<and>
   sent (snd (analyzeMoodFromText sample_trim sample_builtins world_without_key (JStr ''Hello''))) = [] \<and>
   replies world_offline (length (sent world_offline)) = Rejected \<and>
   fst (analyzeMoodFromText sample_trim sample_builtins world_offline (JStr ''Hello'')) = Inr neutral_mood \<and>
   replies (world_with_reply fenced_reply) (length (sent (world_with_reply fenced_reply))) = Json fenced_reply \<and>
   candidate_text fenced_reply = Inr (JStr fenced_text) \<and>
   JSON_parse sample_builtins (sample_trim (strip_fences fenced_text)) = None \<and>
   fst (analyzeMoodFromText sample_trim sample_builtins (world_with_reply fenced_reply) (JStr ''Hello''))
     = Inr neutral_mood"
proof -
  have h1: "no_api_key world_without_key"
    by (simp add: no_api_key_def world_without_key_def)
  have h2: "replies world_offline (length (sent world_offline)) = Rejected"
    by (simp add: world_offline_def)
  have h3: "replies (world_with_reply fenced_reply) (length (sent (world_with_reply fenced_reply)))
      = Json fenced_reply"
    by (simp add: world_with_reply_def)
  have h4: "candidate_text fenced_reply = Inr (JStr fenced_text)"
    by (simp add: candidate_text_def fenced_reply_def bind_exn_def fld_def)
  have h5: "JSON_parse sample_builtins (sample_trim (strip_fences fenced_text)) = None"
    by (simp add: strip_fenced sample_builtins_def sample_JSON_parse_def)
  from analyzeMood_neutral_on_failure [of sample_trim sample_builtins world_without_key "JStr ''Hello''"]
    analyzeMood_neutral_on_failure [of sample_trim sample_builtins world_offline "JStr ''Hello''"]
    analyzeMood_neutral_on_failure [of sample_trim sample_builtins "world_with_reply fenced_reply" "JStr ''Hello''"]
    h1 h2 h3 h4 h5
  show ?thesis by (simp add: world_without_key_def)
qed

text \<open>
  C8 holds of the code except on one malformed reply. \<open>generateCharacterResponse\<close> never
  throws; without the credential it returns the fallback string and makes no request;
  it returns the fallback string when the request is rejected, when the reply cannot be
  read, when the reply fails the test on its candidates, and when reading the text of
  the reply throws.
\<close>

lemma generate_fallbacks:
  "(\<exists>v. fst (generateCharacterResponse oe rt w character messages) = Inr v) \<and>
   (no_api_key w \<longrightarrow>
      fst (generateCharacterResponse oe rt w character messages) = Inr (JStr fallback_response) \<and>
      sent (snd (generateCharacterResponse oe rt w character messages)) = sent w) \<and>
   (replies w (length (sent w)) = Rejected \<longrightarrow>
      fst (generateCharacterResponse oe rt w character messages) = Inr (JStr fallback_response)) \<and>
   (replies w (length (sent w)) = Unreadable \<longrightarrow>
      fst (generateCharacterResponse oe rt w character messages) = Inr (JStr fallback_response)) \<and>
   (\<forall>data. replies w (length (sent w)) = Json data \<and> no_candidate data \<noteq> Inr False \<longrightarrow>
      fst (generateCharacterResponse oe rt w character messages) = Inr (JStr fallback_response)) \<and>
   (\<forall>data. replies w (length (sent w)) = Json data \<and> candidate_text data = Inl TypeError \<longrightarrow>
      fst (generateCharacterResponse oe rt w character messages) = Inr (JStr fallback_response))"
  by (auto simp: generateCharacterResponse_def generate_try_def fetch_def response_json_def
      console_error_def Let_def
      split: sum.splits prod.splits reply.splits bool.splits option.splits if_splits)

lemma lyra_description:
  "\<exists>d. characterDescription oe rt (lyra clock i j) = Inr d"
  by (simp add: characterDescription_def memory_facts_def lyra_def fld_def to_string_def
      bind_exn_def Let_def)

text \<open>
  C8, the reply the code lets through: a reply whose first candidate has a \<open>content\<close> and
  whose first part has no \<open>text\<close> passes the test on the candidates, and the function
  returns \<open>undefined\<close> where the claim (and its declared result type, a string) asks
  for the fallback string.
\<close>

theorem generate_returns_undefined_for_textless_part:
  "fst (generateCharacterResponse sample_entries sample_builtins (world_with_reply textless_reply)
          (lyra sample_clock 1 1) []) = Inr JUndefined"
proof -
  obtain d where d: "characterDescription sample_entries sample_builtins (lyra sample_clock 1 1) = Inr d"
    using lyra_description by blast
  have nc: "no_candidate textless_reply = Inr False"
    by (simp add: no_candidate_def textless_reply_def bind_exn_def fld_def)
  have ct: "candidate_text textless_reply = Inr JUndefined"
    by (simp add: candidate_text_def textless_reply_def bind_exn_def fld_def)
  show ?thesis
    by (simp add: generateCharacterResponse_def generate_try_def d nc ct world_with_reply_def
        no_api_key_def fetch_def response_json_def Let_def)
qed

section \<open>Properties of the routes\<close>

lemma generate_Inr: "\<exists>v w'. generateCharacterResponse oe rt w c ms = (Inr v, w')"
  by (auto simp: generateCharacterResponse_def split: sum.splits prod.splits)

lemma analyze_Inr: "\<exists>v w'. analyzeMoodFromText trim rt w text = (Inr v, w')"
  by (auto simp: analyzeMoodFromText_def split: sum.splits prod.splits)

lemma key_of_int [simp]: "key_of (JNum (of_int k)) = Some k"
  by (simp add: key_of_def)

lemma sample_parse_1: "parseInt sample_builtins (JNum 1) = Some 1"
  by (simp add: sample_builtins_def sample_parseInt_def)

lemma sample_parse_str_1: "parseInt sample_builtins (JStr ''1'') = Some 1"
  by (simp add: sample_builtins_def sample_parseInt_def)

lemma generate_without_key:
  "generateCharacterResponse oe rt world_without_key c ms =
     (Inr (JStr fallback_response),
      console_error world_without_key ''Missing GEMINI_API_KEY environment variable'')"
  by (simp add: generateCharacterResponse_def generate_try_def no_api_key_def world_without_key_def)

lemma analyze_without_key:
  "no_api_key w \<Longrightarrow> analyzeMoodFromText trim rt w text =
     (Inr neutral_mood, console_error w ''Missing GEMINI_API_KEY environment variable'')"
  by (simp add: analyzeMoodFromText_def analyze_try_def)

lemma no_key_after_log: "no_api_key (console_error world_without_key l)"
  by (simp add: no_api_key_def console_error_def world_without_key_def)

lemma neutral_fields:
  "js_get neutral_mood ''mood'' = Inr (JStr ''neutral'')"
  "js_get neutral_mood ''intensity'' = Inr (JNum (1 / 2))"
  "js_get neutral_mood ''dominantColor'' = Inr (JStr ''#808080'')"
  by (simp_all add: neutral_mood_def fld_def)

lemma generate_run_demo:
  "post_generate_character_response sample_entries sample_trim sample_builtins demo_store
     world_without_key characterId_1 1700000000500 =
   (Response 200 (JObj [''message'' \<mapsto> JStr fallback_response, ''mood'' \<mapsto> neutral_mood]),
    snd (updateCharacter (snd (createChatMessage demo_store 1700000000500
           [''characterId'' \<mapsto> JNum 1, ''userId'' \<mapsto> JNum 1, ''isUserMessage'' \<mapsto> JBool False,
            ''content'' \<mapsto> JStr fallback_response, ''mood'' \<mapsto> JStr ''neutral'',
            ''moodIntensity'' \<mapsto> JNum (1 / 2), ''moodColor'' \<mapsto> JStr ''#808080''])) 1
        [''currentMood'' \<mapsto> JStr ''neutral'', ''currentMoodIntensity'' \<mapsto> JNum (1 / 2),
         ''currentMoodColor'' \<mapsto> JStr ''#808080'']),
    console_error (console_error world_without_key ''Missing GEMINI_API_KEY environment variable'')
      ''Missing GEMINI_API_KEY environment variable'')"
  by (simp add: post_generate_character_response_def characterId_1_def fld_def sample_parse_1
      demo_char1 generate_without_key analyze_without_key no_key_after_log neutral_fields
      bind_exn_def lyra_def key_of_def split: prod.splits)

lemma updateCharacter_messages:
  "chatMessages (snd (updateCharacter s i d)) = chatMessages s"
  by (simp add: updateCharacter_def Let_def split: option.splits)

text \<open>
  C3 holds of the code while the character read under the requested id carries that id in
  its \<open>id\<close> field. A POST /api/generate-character-response answered 200 carries the reply
  of the generator and the analysis the analyzer made of that reply; the chat message it
  created holds the reply as \<open>content\<close> and the analysis in \<open>mood\<close>, \<open>moodIntensity\<close> and
  \<open>moodColor\<close>, whatever the character's \<open>id\<close> field; and the character stored under the
  requested id holds the analysis in \<open>currentMood\<close>, \<open>currentMoodIntensity\<close> and
  \<open>currentMoodColor\<close> when its \<open>id\<close> field is that id.
\<close>

lemma mood_persisted:
  assumes ok: "post_generate_character_response oe trim rt s w req_body now = (Response 200 b, s', w')"
    and cid: "js_get req_body ''characterId'' = Inr cid"
    and k: "parseInt rt cid = Some k"
    and c: "getCharacter s k = Some c"
  shows "\<exists>response w1 moodAnalysis mood intensity colour msg.
      generateCharacterResponse oe rt w c (getChatMessagesByCharacter rt s (fld c ''id''))
        = (Inr response, w1) \<and>
      analyzeMoodFromText trim rt w1 response = (Inr moodAnalysis, w') \<and>
      b = JObj [''message'' \<mapsto> response, ''mood'' \<mapsto> moodAnalysis] \<and>
      js_get moodAnalysis ''mood'' = Inr mood \<and>
      js_get moodAnalysis ''intensity'' = Inr intensity \<and>
      js_get moodAnalysis ''dominantColor'' = Inr colour \<and>
      map_of (chatMessages s') (chatMessageIdCounter s) = Some msg \<and>
      fld msg ''id'' = JNum (of_int (chatMessageIdCounter s)) \<and>
      fld msg ''characterId'' = fld c ''id'' \<and>
      fld msg ''content'' = response \<and>
      fld msg ''mood'' = mood \<and> fld msg ''moodIntensity'' = intensity \<and>
      fld msg ''moodColor'' = colour \<and>
      (fld c ''id'' = JNum (of_int k) \<longrightarrow>
         (\<exists>c'. getCharacter s' k = Some c' \<and>
            fld c' ''currentMood'' = mood \<and> fld c' ''currentMoodIntensity'' = intensity \<and>
            fld c' ''currentMoodColor'' = colour))"
proof -
  obtain response w1 where g:
    "generateCharacterResponse oe rt w c (getChatMessagesByCharacter rt s (fld c ''id''))
       = (Inr response, w1)"
    using generate_Inr by blast
  obtain moodAnalysis w2 where a: "analyzeMoodFromText trim rt w1 response = (Inr moodAnalysis, w2)"
    using analyze_Inr by blast
  define update where "update = (\<lambda>s1 mood intensity dominantColor.
      case key_of (fld c ''id'') of
        None \<Rightarrow> (None, s1)
      | Some k \<Rightarrow>
          updateCharacter s1 k
            [''currentMood'' \<mapsto> mood, ''currentMoodIntensity'' \<mapsto> intensity,
             ''currentMoodColor'' \<mapsto> dominantColor])"
  from ok cid k c g a
  have run: "(case bind_exn (js_get moodAnalysis ''mood'') (\<lambda>mood.
                   bind_exn (js_get moodAnalysis ''intensity'') (\<lambda>intensity.
                   bind_exn (js_get moodAnalysis ''dominantColor'') (\<lambda>dominantColor.
                     Inr (mood, intensity, dominantColor)))) of
               Inl error \<Rightarrow> failed_generation s w2
             | Inr (mood, intensity, dominantColor) \<Rightarrow>
                 (case createChatMessage s now
                         [''characterId'' \<mapsto> fld c ''id'', ''userId'' \<mapsto> JNum 1,
                          ''isUserMessage'' \<mapsto> JBool False, ''content'' \<mapsto> response,
                          ''mood'' \<mapsto> mood, ''moodIntensity'' \<mapsto> intensity,
                          ''moodColor'' \<mapsto> dominantColor] of
                    (newMessage, s1) \<Rightarrow>
                      (case update s1 mood intensity dominantColor of
                         (updated, s2) \<Rightarrow>
                           (Response 200
                              (JObj [''message'' \<mapsto> response, ''mood'' \<mapsto> moodAnalysis]),
                            s2, w2))))
             = (Response 200 b, s', w')"
    unfolding update_def
    by (auto simp: post_generate_character_response_def Let_def split: if_splits)
  then obtain mood intensity colour where
    m: "js_get moodAnalysis ''mood'' = Inr mood"
       "js_get moodAnalysis ''intensity'' = Inr intensity"
       "js_get moodAnalysis ''dominantColor'' = Inr colour"
    by (auto simp: bind_exn_def failed_generation_def split: sum.splits)
  define s1 where "s1 = snd (createChatMessage s now
      [''characterId'' \<mapsto> fld c ''id'', ''userId'' \<mapsto> JNum 1,
       ''isUserMessage'' \<mapsto> JBool False, ''content'' \<mapsto> response,
       ''mood'' \<mapsto> mood, ''moodIntensity'' \<mapsto> intensity, ''moodColor'' \<mapsto> colour])"
  from run m have
    b: "b = JObj [''message'' \<mapsto> response, ''mood'' \<mapsto> moodAnalysis]"
    and s': "s' = snd (update s1 mood intensity colour)"
    and w': "w' = w2"
    by (auto simp: bind_exn_def s1_def split: prod.splits)
  have kept: "chatMessages s' = chatMessages s1"
    unfolding s' update_def by (simp add: updateCharacter_messages split: option.splits)
  have msg: "\<exists>msg. map_of (chatMessages s') (chatMessageIdCounter s) = Some msg \<and>
      fld msg ''id'' = JNum (of_int (chatMessageIdCounter s)) \<and>
      fld msg ''characterId'' = fld c ''id'' \<and>
      fld msg ''content'' = response \<and>
      fld msg ''mood'' = mood \<and> fld msg ''moodIntensity'' = intensity \<and>
      fld msg ''moodColor'' = colour"
    unfolding kept by (simp add: s1_def createChatMessage_def Let_def map_of_update_same fld_def)
  have chr: "\<exists>c'. getCharacter s' k = Some c' \<and>
      fld c' ''currentMood'' = mood \<and> fld c' ''currentMoodIntensity'' = intensity \<and>
      fld c' ''currentMoodColor'' = colour" if intact: "fld c ''id'' = JNum (of_int k)"
  proof -
    have "s' = snd (updateCharacter s1 k
        [''currentMood'' \<mapsto> mood, ''currentMoodIntensity'' \<mapsto> intensity,
         ''currentMoodColor'' \<mapsto> colour])"
      unfolding s' update_def intact key_of_int by simp
    then show ?thesis
      using c by (simp add: s1_def createChatMessage_def updateCharacter_def getCharacter_def Let_def
          map_of_update_same fld_def)
  qed
  from g a b m msg chr w' show ?thesis by blast
qed

text \<open>The demo store meets the hypotheses, with character 1 and no credential.\<close>

lemma mood_persisted_on_demo:
  "js_get characterId_1 ''characterId'' = Inr (JNum 1) \<and>
   parseInt sample_builtins (JNum 1) = Some 1 \<and>
   getCharacter demo_store 1 = Some (lyra sample_clock 1 1) \<and>
   fld (lyra sample_clock 1 1) ''id'' = JNum 1 \<and>
   fst (post_generate_character_response sample_entries sample_trim sample_builtins demo_store
          world_without_key characterId_1 1700000000500) =
     Response 200 (JObj [''message'' \<mapsto> JStr fallback_response, ''mood'' \<mapsto> neutral_mood]) \<and>
   (\<exists>msg c'.
      map_of (chatMessages (fst (snd (post_generate_character_response sample_entries sample_trim
          sample_builtins demo_store world_without_key characterId_1 1700000000500))))
        (chatMessageIdCounter demo_store) = Some msg \<and>
      fld msg ''mood'' = JStr ''neutral'' \<and> fld msg ''moodIntensity'' = JNum (1 / 2) \<and>
      fld msg ''moodColor'' = JStr ''#808080'' \<and>
      getCharacter (fst (snd (post_generate_character_response sample_entries sample_trim
          sample_builtins demo_store world_without_key characterId_1 1700000000500))) 1 = Some c' \<and>
      fld c' ''currentMood'' = JStr ''neutral'' \<and> fld c' ''currentMoodIntensity'' = JNum (1 / 2) \<and>
      fld c' ''currentMoodColor'' = JStr ''#808080'')"
proof -
  let ?s' = "snd (updateCharacter (snd (createChatMessage demo_store 1700000000500
           [''characterId'' \<mapsto> JNum 1, ''userId'' \<mapsto> JNum 1, ''isUserMessage'' \<mapsto> JBool False,
            ''content'' \<mapsto> JStr fallback_response, ''mood'' \<mapsto> JStr ''neutral'',
            ''moodIntensity'' \<mapsto> JNum (1 / 2), ''moodColor'' \<mapsto> JStr ''#808080''])) 1
        [''currentMood'' \<mapsto> JStr ''neutral'', ''currentMoodIntensity'' \<mapsto> JNum (1 / 2),
         ''currentMoodColor'' \<mapsto> JStr ''#808080''])"
  have cid: "js_get characterId_1 ''characterId'' = Inr (JNum 1)"
    by (simp add: characterId_1_def fld_def)
  have intact: "fld (lyra sample_clock 1 1) ''id'' = JNum (of_int 1)"
    by (simp add: lyra_def fld_def)
  from mood_persisted [OF generate_run_demo cid sample_parse_1 demo_char1]
  obtain response moodAnalysis mood intensity colour msg where
    b: "JObj [''message'' \<mapsto> JStr fallback_response, ''mood'' \<mapsto> neutral_mood] =
        JObj [''message'' \<mapsto> response, ''mood'' \<mapsto> moodAnalysis]"
    and m: "js_get moodAnalysis ''mood'' = Inr mood"
      "js_get moodAnalysis ''intensity'' = Inr intensity"
      "js_get moodAnalysis ''dominantColor'' = Inr colour"
    and message: "map_of (chatMessages ?s') (chatMessageIdCounter demo_store) = Some msg"
      "fld msg ''mood'' = mood" "fld msg ''moodIntensity'' = intensity"
      "fld msg ''moodColor'' = colour"
    and character: "fld (lyra sample_clock 1 1) ''id'' = JNum (of_int 1) \<longrightarrow>
      (\<exists>c'. getCharacter ?s' 1 = Some c' \<and>
         fld c' ''currentMood'' = mood \<and> fld c' ''currentMoodIntensity'' = intensity \<and>
         fld c' ''currentMoodColor'' = colour)"
    by blast
  from character intact obtain c' where
    c': "getCharacter ?s' 1 = Some c'"
      "fld c' ''currentMood'' = mood" "fld c' ''currentMoodIntensity'' = intensity"
      "fld c' ''currentMoodColor'' = colour"
    by blast
  from b have "[''message'' \<mapsto> JStr fallback_response, ''mood'' \<mapsto> neutral_mood] ''mood'' =
      [''message'' \<mapsto> response, ''mood'' \<mapsto> moodAnalysis] ''mood''"
    by simp
  then have "moodAnalysis = neutral_mood" by simp
  with m neutral_fields have "mood = JStr ''neutral''" "intensity = JNum (1 / 2)"
    "colour = JStr ''#808080''" by simp_all
  with message c' cid sample_parse_1 demo_char1 intact show ?thesis
    by (simp add: generate_run_demo)
qed

text \<open>
  C3, the input on which the code fails. The handler updates the character stored under
  the \<open>id\<close> field of the character it read, where the other handlers use the id of the
  request. After PATCH /api/characters/1 with \<open>{id: 99}\<close> (answered 200),
  POST /api/generate-character-response for character 1 is answered 200 and the new chat
  message holds the mood, but the character stored under 1 has no \<open>currentMood\<close>; nor is
  there a character under 99.
\<close>

theorem mood_lost_after_id_overwrite:
  "fst (patch_character sample_builtins demo_store ''1'' (JObj [''id'' \<mapsto> JNum 99]) 1700000000100)
     = Response 200 (JObj ((lyra sample_clock 1 1)(''id'' \<mapsto> JNum 99))) \<and>
   fst (post_generate_character_response sample_entries sample_trim sample_builtins
          renumbered_store world_without_key characterId_1 1700000000500) =
     Response 200 (JObj [''message'' \<mapsto> JStr fallback_response, ''mood'' \<mapsto> neutral_mood]) \<and>
   message_field (fst (snd (post_generate_character_response sample_entries sample_trim
       sample_builtins renumbered_store world_without_key characterId_1 1700000000500)))
       (chatMessageIdCounter renumbered_store) ''mood'' = JStr ''neutral'' \<and>
   character_field (fst (snd (post_generate_character_response sample_entries sample_trim
       sample_builtins renumbered_store world_without_key characterId_1 1700000000500))) 1 ''name''
     = JStr ''Lyra Nightshade'' \<and>
   character_field (fst (snd (post_generate_character_response sample_entries sample_trim
       sample_builtins renumbered_store world_without_key characterId_1 1700000000500))) 1
       ''currentMood'' = JUndefined \<and>
   getCharacter (fst (snd (post_generate_character_response sample_entries sample_trim
       sample_builtins renumbered_store world_without_key characterId_1 1700000000500))) 99 = None"
proof -
  have p: "patch_character sample_builtins demo_store ''1'' (JObj [''id'' \<mapsto> JNum 99]) 1700000000100
      = (Response 200 (JObj ((lyra sample_clock 1 1)(''id'' \<mapsto> JNum 99))),
         snd (createActivityLog (snd (updateCharacter demo_store 1 [''id'' \<mapsto> JNum 99]))
           1700000000100
           [''worldId'' \<mapsto> JNum 1, ''activityType'' \<mapsto> JStr ''CHARACTER_UPDATED'',
            ''entityId'' \<mapsto> JNum 1,
            ''description'' \<mapsto> JStr ''Updated character Lyra Nightshade'']))"
    by (simp add: patch_character_def sample_parse_str_1 demo_char1
        demo_char1 [unfolded getCharacter_def] updateCharacter_def Let_def
        to_string_def fld_def lyra_def case_prod_beta)
  have chars: "characters renumbered_store =
      [(1, (lyra sample_clock 1 1)(''id'' \<mapsto> JNum 99)), (2, cipher sample_clock 2 2),
       (3, blackthorne sample_clock 3 3)]"
    unfolding renumbered_store_def p
    by (simp add: createActivityLog_def updateCharacter_def
        demo_store_def demo_store_eq Let_def lyra_def)
  have run: "post_generate_character_response sample_entries sample_trim sample_builtins
      renumbered_store world_without_key characterId_1 1700000000500 =
      (Response 200 (JObj [''message'' \<mapsto> JStr fallback_response, ''mood'' \<mapsto> neutral_mood]),
       snd (createChatMessage renumbered_store 1700000000500
           [''characterId'' \<mapsto> JNum 99, ''userId'' \<mapsto> JNum 1, ''isUserMessage'' \<mapsto> JBool False,
            ''content'' \<mapsto> JStr fallback_response, ''mood'' \<mapsto> JStr ''neutral'',
            ''moodIntensity'' \<mapsto> JNum (1 / 2), ''moodColor'' \<mapsto> JStr ''#808080'']),
       console_error (console_error world_without_key ''Missing GEMINI_API_KEY environment variable'')
         ''Missing GEMINI_API_KEY environment variable'')"
    by (simp add: post_generate_character_response_def characterId_1_def fld_def sample_parse_1
        getCharacter_def chars generate_without_key analyze_without_key no_key_after_log
        neutral_fields bind_exn_def key_of_def updateCharacter_def createChatMessage_def Let_def
        split: prod.splits)
  show ?thesis
    by (simp add: p run character_field_def message_field_def getCharacter_def createChatMessage_def
        chars Let_def fld_def lyra_def map_of_update_same)
qed

section \<open>The end-to-end scenario\<close>

lemma post_worlds_201:
  assumes "post_worlds sch rt s req_body t1 t2 = (Response 201 (JObj world), s1)"
  shows "\<exists>name. fld world ''id'' = JNum (of_int (worldIdCounter s)) \<and>
    s1 = s\<lparr>worldIdCounter := worldIdCounter s + 1,
            worlds := AList.update (worldIdCounter s) world (worlds s),
            activityLogIdCounter := activityLogIdCounter s + 1,
            activityLogs := AList.update (activityLogIdCounter s)
               (world_log world name (activityLogIdCounter s) t2) (activityLogs s)\<rparr>"
  using assms
  by (auto simp: post_worlds_def createWorld_def createActivityLog_def Let_def world_log_def
      fld_def split: sum.splits)

lemma post_characters_201:
  assumes "post_characters sch rt s req_body t1 t2 = (Response 201 (JObj character), s1)"
  shows "\<exists>name. fld character ''id'' = JNum (of_int (characterIdCounter s)) \<and>
    s1 = s\<lparr>characterIdCounter := characterIdCounter s + 1,
            characters := AList.update (characterIdCounter s) character (characters s),
            activityLogIdCounter := activityLogIdCounter s + 1,
            activityLogs := AList.update (activityLogIdCounter s)
               (character_log character name (activityLogIdCounter s) t2) (activityLogs s)\<rparr>"
  using assms
  by (auto simp: post_characters_def createCharacter_def createActivityLog_def Let_def
      character_log_def fld_def split: sum.splits)

lemma filter_update_fresh:
  "\<not> list_ex P (map snd al) \<Longrightarrow> filter P (map snd (AList.update k v al)) = filter P [v]"
  by (induction al) (auto simp: list_ex_iff)

lemma filter_update_twice:
  "\<not> list_ex P (map snd al) \<Longrightarrow> P v \<Longrightarrow> P v' \<Longrightarrow> k \<noteq> k' \<Longrightarrow>
   filter P (map snd (AList.update k' v' (AList.update k v al))) = [v, v'] \<or>
   filter P (map snd (AList.update k' v' (AList.update k v al))) = [v', v]"
proof (induction al)
  case Nil
  then show ?case by simp
next
  case (Cons a al)
  then have no: "\<not> list_ex P (map snd al)" and a: "\<not> P (snd a)"
    by (auto simp: list_ex_iff)
  show ?case
  proof (cases "fst a = k")
    case True
    with Cons.prems a filter_update_fresh [OF no, of k' v'] show ?thesis by simp
  next
    case False
    show ?thesis
    proof (cases "fst a = k'")
      case True
      with Cons.prems a False filter_update_fresh [OF no, of k v] show ?thesis by simp
    next
      case nk': False
      with Cons.IH [OF no Cons.prems(2-4)] a False show ?thesis by simp
    qed
  qed
qed

lemma sort_two_newest:
  assumes "fld a ''createdAt'' = JDate ta" "fld b ''createdAt'' = JDate tb" "ta < tb"
  shows "js_sort (newest_first rt) [a, b] = [b, a]" "js_sort (newest_first rt) [b, a] = [b, a]"
  using assms
  by (simp_all add: js_sort_def newest_first_def getTime_def num_sub_def sort_order_def)

lemma update_new_key:
  "k \<notin> fst ` set al \<Longrightarrow> AList.update k v al = al @ [(k, v)]"
  by (induction al) auto

lemma filter_update_in_order:
  assumes "\<not> list_ex P (map snd al)" "P v" "P v'" "k' \<notin> fst ` set al" "k \<noteq> k'"
  shows "filter P (map snd (AList.update k' v' (AList.update k v al))) = [v, v']"
proof -
  have "k' \<notin> fst ` set (AList.update k v al)"
    using assms(4,5) by (simp add: AList.dom_update)
  then have "AList.update k' v' (AList.update k v al) = AList.update k v al @ [(k', v')]"
    by (rule update_new_key)
  with assms(1-3) filter_update_fresh [of P al k v] show ?thesis by simp
qed

lemma sort_two_equal:
  assumes "fld a ''createdAt'' = JDate t" "fld b ''createdAt'' = JDate t"
  shows "js_sort (newest_first rt) [a, b] = [a, b]"
  using assms
  by (simp add: js_sort_def newest_first_def getTime_def num_sub_def sort_order_def)

lemma picked_world:
  "pick [''userId'', ''name'', ''description'']
     ([''name'' \<mapsto> JStr ''Test'',
       ''description'' \<mapsto> JStr ''A test world with enough characters.'',
       ''userId'' \<mapsto> JNum 1]) =
   [''userId'' \<mapsto> JNum 1, ''name'' \<mapsto> JStr ''Test'',
    ''description'' \<mapsto> JStr ''A test world with enough characters.'']"
  by (rule ext) (simp add: pick_def)

lemma picked_hero:
  "pick [''worldId'', ''name'', ''role'', ''personality'', ''memory'']
     [''worldId'' \<mapsto> JNum 4, ''name'' \<mapsto> JStr ''Hero'', ''role'' \<mapsto> JStr ''Knight'',
      ''personality'' \<mapsto> JStr ''Brave and loyal to a fault.'', ''memory'' \<mapsto> JObj Map.empty] =
   [''worldId'' \<mapsto> JNum 4, ''name'' \<mapsto> JStr ''Hero'', ''role'' \<mapsto> JStr ''Knight'',
    ''personality'' \<mapsto> JStr ''Brave and loyal to a fault.'', ''memory'' \<mapsto> JObj Map.empty]"
  by (rule ext) (simp add: pick_def)

lemma demo_post_worlds:
  "post_worlds sample_schemas sample_builtins demo_store test_world_body t1 t2 =
     (Response 201 (JObj (test_world t1)), after_post_worlds t1 t2)"
proof -
  have "fst (post_worlds sample_schemas sample_builtins demo_store test_world_body t1 t2) =
      Response 201 (JObj (test_world t1))"
    by (simp add: post_worlds_def test_world_body_def sample_schemas_def
        sample_insertWorldSchema_def is_integer_def is_string_def fld_def picked_world
        createWorld_def createActivityLog_def Let_def to_string_def test_world_def
        demo_store_def demo_store_eq)
  then show ?thesis
    by (simp add: after_post_worlds_def prod_eq_iff)
qed

lemma demo_after_post_worlds:
  "after_post_worlds t1 t2 =
     demo_store\<lparr>worldIdCounter := 5, worlds := worlds demo_store @ [(4, test_world t1)],
       activityLogIdCounter := 8,
       activityLogs := activityLogs demo_store @ [(7, world_log (test_world t1) ''Test'' 7 t2)]\<rparr>"
  by (simp add: after_post_worlds_def post_worlds_def test_world_body_def sample_schemas_def
      sample_insertWorldSchema_def is_integer_def is_string_def fld_def picked_world
      createWorld_def createActivityLog_def Let_def to_string_def test_world_def
      demo_store_def demo_store_eq world_log_def)

lemma demo_post_characters:
  "post_characters sample_schemas sample_builtins (after_post_worlds t1 t2) hero_body t3 t4 =
     (Response 201 (JObj (hero t3)), after_post_characters t1 t2 t3 t4)"
proof -
  have "fst (post_characters sample_schemas sample_builtins (after_post_worlds t1 t2) hero_body t3 t4)
      = Response 201 (JObj (hero t3))"
    by (simp add: post_characters_def hero_body_def sample_schemas_def
        sample_insertCharacterSchema_def is_integer_def is_string_def fld_def picked_hero
        createCharacter_def createActivityLog_def Let_def to_string_def hero_def
        demo_after_post_worlds demo_store_def demo_store_eq)
  then show ?thesis
    by (simp add: after_post_characters_def prod_eq_iff)
qed

lemma demo_after_post_characters:
  "after_post_characters t1 t2 t3 t4 =
     demo_store\<lparr>worldIdCounter := 5, worlds := worlds demo_store @ [(4, test_world t1)],
       characterIdCounter := 5, characters := characters demo_store @ [(4, hero t3)],
       activityLogIdCounter := 9,
       activityLogs := activityLogs demo_store @
         [(7, world_log (test_world t1) ''Test'' 7 t2),
          (8, character_log (hero t3) ''Hero'' 8 t4)]\<rparr>"
  by (simp add: after_post_characters_def post_characters_def hero_body_def sample_schemas_def
      sample_insertCharacterSchema_def is_integer_def is_string_def fld_def picked_hero
      createCharacter_def createActivityLog_def Let_def to_string_def hero_def
      demo_after_post_worlds demo_store_def demo_store_eq character_log_def)

lemma sample_parse_str_4: "parseInt sample_builtins (JStr ''4'') = Some 4"
  by (simp add: sample_builtins_def sample_parseInt_def)

text \<open>
  C9, as stated, fails on the order when the two activity entries are written within the
  same millisecond: the comparator answers 0, the sort is stable, and the entries stay
  in the order of insertion, WORLD_CREATED first.
\<close>

theorem same_millisecond_keeps_insertion_order:
  "status (fst (post_worlds sample_schemas sample_builtins demo_store test_world_body
      1700000000500 1700000000500)) = 201 \<and>
   status (fst (post_characters sample_schemas sample_builtins
      (after_post_worlds 1700000000500 1700000000500) hero_body 1700000000500 1700000000500)) = 201 \<and>
   activity_types (get_world_activity sample_builtins
      (after_post_characters 1700000000500 1700000000500 1700000000500 1700000000500)
      ''4'' JUndefined) = [JStr ''WORLD_CREATED'', JStr ''CHARACTER_CREATED'']"
proof (intro conjI)
  show "status (fst (post_worlds sample_schemas sample_builtins demo_store test_world_body
      1700000000500 1700000000500)) = 201"
    by (simp add: demo_post_worlds status_def)
  show "status (fst (post_characters sample_schemas sample_builtins
      (after_post_worlds 1700000000500 1700000000500) hero_body 1700000000500 1700000000500)) = 201"
    by (simp add: demo_post_characters status_def)
  show "activity_types (get_world_activity sample_builtins
      (after_post_characters 1700000000500 1700000000500 1700000000500 1700000000500)
      ''4'' JUndefined) = [JStr ''WORLD_CREATED'', JStr ''CHARACTER_CREATED'']"
    by (simp add: activity_types_def
        get_world_activity_def sample_parse_str_4 getWorld_def getActivityLogsByWorld_def
        demo_after_post_characters demo_store_def demo_store_eq map_values_def
        activity_def world_log_def character_log_def test_world_def hero_def fld_def
        js_sort_def newest_first_def getTime_def num_sub_def sort_order_def)
qed

text \<open>
  C9, amended. On a fresh world (no character and no activity entry refers to the id
  the next world will get): after POST /api/worlds has created world N and
  POST /api/characters has created a character of world N, GET /api/worlds/N/characters
  returns exactly that character, and GET /api/worlds/N/activity returns exactly two
  entries, the WORLD_CREATED entry of the world and the CHARACTER_CREATED entry of the
  character, whatever the clock read. Their order is by time stamp, the later first:
  CHARACTER_CREATED first when its stamp is the later one, WORLD_CREATED first when its
  own is. With equal stamps the order is that of insertion into the map, which is
  WORLD_CREATED first when the id after the next activity id is not a key of the map.
\<close>

theorem fresh_world_scenario:
  assumes fresh: "\<not> refers_to ''worldId'' (worldIdCounter s) (characters s)"
      "\<not> refers_to ''worldId'' (worldIdCounter s) (activityLogs s)"
    and w: "post_worlds sch rt s body_w t1 t2 = (Response 201 (JObj world), s1)"
    and c: "post_characters sch rt s1 body_c t3 t4 = (Response 201 (JObj character), s2)"
    and inw: "fld character ''worldId'' = fld world ''id''"
    and p: "parseInt rt (JStr param) = Some (worldIdCounter s)"
  shows "get_world_characters rt s2 param = Response 200 (JArr [JObj character]) \<and>
    (\<exists>wl cl.
       fld wl ''activityType'' = JStr ''WORLD_CREATED'' \<and>
       fld wl ''entityId'' = fld world ''id'' \<and>
       fld wl ''createdAt'' = JDate t2 \<and>
       fld cl ''activityType'' = JStr ''CHARACTER_CREATED'' \<and>
       fld cl ''entityId'' = fld character ''id'' \<and>
       fld cl ''createdAt'' = JDate t4 \<and>
       (get_world_activity rt s2 param JUndefined = Response 200 (JArr [JObj cl, JObj wl]) \<or>
        get_world_activity rt s2 param JUndefined = Response 200 (JArr [JObj wl, JObj cl])) \<and>
       (t2 < t4 \<longrightarrow>
          get_world_activity rt s2 param JUndefined = Response 200 (JArr [JObj cl, JObj wl])) \<and>
       (t4 < t2 \<longrightarrow>
          get_world_activity rt s2 param JUndefined = Response 200 (JArr [JObj wl, JObj cl])) \<and>
       (t2 = t4 \<and> activityLogIdCounter s + 1 \<notin> fst ` set (activityLogs s) \<longrightarrow>
          get_world_activity rt s2 param JUndefined = Response 200 (JArr [JObj wl, JObj cl])))"
proof -
  let ?N = "worldIdCounter s" and ?L = "activityLogIdCounter s"
  from post_worlds_201 [OF w] obtain wname where
    wid: "fld world ''id'' = JNum (of_int ?N)" and
    s1: "s1 = s\<lparr>worldIdCounter := ?N + 1, worlds := AList.update ?N world (worlds s),
            activityLogIdCounter := ?L + 1,
            activityLogs := AList.update ?L (world_log world wname ?L t2) (activityLogs s)\<rparr>"
    by blast
  from post_characters_201 [OF c] obtain cname where
    s2: "s2 = s1\<lparr>characterIdCounter := characterIdCounter s1 + 1,
            characters := AList.update (characterIdCounter s1) character (characters s1),
            activityLogIdCounter := activityLogIdCounter s1 + 1,
            activityLogs := AList.update (activityLogIdCounter s1)
               (character_log character cname (activityLogIdCounter s1) t4) (activityLogs s1)\<rparr>"
    by blast
  define wl where "wl = world_log world wname ?L t2"
  define cl where "cl = character_log character cname (?L + 1) t4"
  define logs where
    "logs = filter (of_world ?N) (map snd (AList.update (?L + 1) cl (AList.update ?L wl (activityLogs s))))"
  have world: "getWorld s2 ?N = Some world"
    by (simp add: s2 s1 getWorld_def map_of_update_same)
  have cw: "of_world ?N character"
    by (simp add: of_world_def inw wid)
  have chars: "getCharactersByWorld s2 ?N = [character]"
    using fresh(1) filter_update_fresh [of "of_world ?N" "characters s" "characterIdCounter s" character] cw
    by (simp add: getCharactersByWorld_def s2 s1 map_values_def refers_to_def of_world_def [abs_def])
  have lw: "of_world ?N wl" "of_world ?N cl"
    by (simp_all add: wl_def cl_def of_world_def world_log_def character_log_def fld_def
        inw [unfolded fld_def] wid [unfolded fld_def])
  have none: "\<not> list_ex (of_world ?N) (map snd (activityLogs s))"
    using fresh(2) by (simp add: refers_to_def map_values_def of_world_def [abs_def])
  have times: "fld wl ''createdAt'' = JDate t2" "fld cl ''createdAt'' = JDate t4"
    by (simp_all add: wl_def cl_def world_log_def character_log_def fld_def)
  have two: "logs = [wl, cl] \<or> logs = [cl, wl]"
    unfolding logs_def using none lw by (intro filter_update_twice) simp_all
  have in_order: "logs = [wl, cl]" if "?L + 1 \<notin> fst ` set (activityLogs s)"
    unfolding logs_def using none lw that by (intro filter_update_in_order) simp_all
  have listing: "getActivityLogsByWorld rt s2 ?N None = js_sort (newest_first rt) logs"
    by (simp add: getActivityLogsByWorld_def s2 s1 map_values_def of_world_def [abs_def]
        logs_def wl_def cl_def)
  have later: "js_sort (newest_first rt) logs = [cl, wl]" if "t2 < t4"
    using two sort_two_newest [OF times that, of rt] by auto
  have earlier: "js_sort (newest_first rt) logs = [wl, cl]" if "t4 < t2"
    using two sort_two_newest [OF times(2) times(1) that, of rt] by auto
  have same: "js_sort (newest_first rt) logs = logs" if "t2 = t4"
    using two sort_two_equal [of wl t2 cl rt] sort_two_equal [of cl t2 wl rt] times that by auto
  have activity: "get_world_activity rt s2 param JUndefined =
      Response 200 (JArr (map JObj (js_sort (newest_first rt) logs)))"
    by (simp add: get_world_activity_def p world listing)
  have either: "get_world_activity rt s2 param JUndefined = Response 200 (JArr [JObj cl, JObj wl]) \<or>
      get_world_activity rt s2 param JUndefined = Response 200 (JArr [JObj wl, JObj cl])"
    using later earlier same two unfolding activity
    by (cases t2 t4 rule: linorder_cases) auto
  have "get_world_characters rt s2 param = Response 200 (JArr [JObj character])"
    by (simp add: get_world_characters_def p world chars)
  moreover have "fld wl ''activityType'' = JStr ''WORLD_CREATED''"
    "fld wl ''entityId'' = fld world ''id''"
    "fld cl ''activityType'' = JStr ''CHARACTER_CREATED''"
    "fld cl ''entityId'' = fld character ''id''"
    by (simp_all add: wl_def cl_def world_log_def character_log_def fld_def)
  moreover have "t2 < t4 \<longrightarrow>
      get_world_activity rt s2 param JUndefined = Response 200 (JArr [JObj cl, JObj wl])"
    using later by (simp add: activity)
  moreover have "t4 < t2 \<longrightarrow>
      get_world_activity rt s2 param JUndefined = Response 200 (JArr [JObj wl, JObj cl])"
    using earlier by (simp add: activity)
  moreover have "t2 = t4 \<and> ?L + 1 \<notin> fst ` set (activityLogs s) \<longrightarrow>
      get_world_activity rt s2 param JUndefined = Response 200 (JArr [JObj wl, JObj cl])"
    using same in_order unfolding activity by auto
  ultimately show ?thesis using times either by blast
qed


theorem fresh_world_scenario_witness:
  "\<not> refers_to ''worldId'' (worldIdCounter demo_store) (characters demo_store) \<and>
   \<not> refers_to ''worldId'' (worldIdCounter demo_store) (activityLogs demo_store) \<and>
   post_worlds sample_schemas sample_builtins demo_store test_world_body
      1700000000500 1700000000501 =
     (Response 201 (JObj (test_world 1700000000500)),
      after_post_worlds 1700000000500 1700000000501) \<and>
   post_characters sample_schemas sample_builtins
      (after_post_worlds 1700000000500 1700000000501) hero_body 1700000000502 1700000000503 =
     (Response 201 (JObj (hero 1700000000502)),
      after_post_characters 1700000000500 1700000000501 1700000000502 1700000000503) \<and>
   fld (hero 1700000000502) ''worldId'' = fld (test_world 1700000000500) ''id'' \<and>
   parseInt sample_builtins (JStr ''4'') = Some (worldIdCounter demo_store) \<and>
   activityLogIdCounter demo_store + 1 \<notin> fst ` set (activityLogs demo_store) \<and>
   get_world_characters sample_builtins
      (after_post_characters 1700000000500 1700000000501 1700000000502 1700000000503) ''4'' =
     Response 200 (JArr [JObj (hero 1700000000502)]) \<and>
   activity_types (get_world_activity sample_builtins
      (after_post_characters 1700000000500 1700000000501 1700000000502 1700000000503)
      ''4'' JUndefined) = [JStr ''CHARACTER_CREATED'', JStr ''WORLD_CREATED''] \<and>
   activity_types (get_world_activity sample_builtins
      (after_post_characters 1700000000500 1700000000500 1700000000500 1700000000500)
      ''4'' JUndefined) = [JStr ''WORLD_CREATED'', JStr ''CHARACTER_CREATED''] \<and>
   activity_types (get_world_activity sample_builtins
      (after_post_characters 1700000000500 1700000000503 1700000000504 1700000000501)
      ''4'' JUndefined) = [JStr ''WORLD_CREATED'', JStr ''CHARACTER_CREATED'']"
proof -
  have four: "worldIdCounter demo_store = 4"
    by (simp add: demo_store_def demo_store_eq)
  have fresh: "\<not> refers_to ''worldId'' (worldIdCounter demo_store) (characters demo_store)"
    "\<not> refers_to ''worldId'' (worldIdCounter demo_store) (activityLogs demo_store)"
    by (simp_all add: refers_to_def demo_store_def demo_store_eq map_values_def fld_def
        lyra_def cipher_def blackthorne_def activity_def)
  have inw: "fld (hero t3) ''worldId'' = fld (test_world t1) ''id''" for t1 t3
    by (simp add: hero_def test_world_def fld_def)
  have p: "parseInt sample_builtins (JStr ''4'') = Some (worldIdCounter demo_store)"
    by (simp add: sample_parse_str_4 four)
  have unused: "activityLogIdCounter demo_store + 1 \<notin> fst ` set (activityLogs demo_store)"
    by (simp add: demo_store_def demo_store_eq)
  from fresh_world_scenario [OF fresh
      demo_post_worlds [of 1700000000500 1700000000501]
      demo_post_characters [of 1700000000500 1700000000501 1700000000502 1700000000503] inw p]
  obtain wl cl where
    chars: "get_world_characters sample_builtins
      (after_post_characters 1700000000500 1700000000501 1700000000502 1700000000503) ''4'' =
      Response 200 (JArr [JObj (hero 1700000000502)])"
    and types: "fld cl ''activityType'' = JStr ''CHARACTER_CREATED''"
      "fld wl ''activityType'' = JStr ''WORLD_CREATED''"
    and logs: "(1700000000501::int) < 1700000000503 \<longrightarrow>
      get_world_activity sample_builtins
        (after_post_characters 1700000000500 1700000000501 1700000000502 1700000000503)
        ''4'' JUndefined = Response 200 (JArr [JObj cl, JObj wl])"
    by blast
  from logs types have later: "activity_types (get_world_activity sample_builtins
      (after_post_characters 1700000000500 1700000000501 1700000000502 1700000000503)
      ''4'' JUndefined) = [JStr ''CHARACTER_CREATED'', JStr ''WORLD_CREATED'']"
    by (simp add: activity_types_def)
  from fresh_world_scenario [OF fresh
      demo_post_worlds [of 1700000000500 1700000000500]
      demo_post_characters [of 1700000000500 1700000000500 1700000000500 1700000000500] inw p]
  obtain wl' cl' where
    types': "fld cl' ''activityType'' = JStr ''CHARACTER_CREATED''"
      "fld wl' ''activityType'' = JStr ''WORLD_CREATED''"
    and logs': "(1700000000500::int) = 1700000000500 \<and>
        activityLogIdCounter demo_store + 1 \<notin> fst ` set (activityLogs demo_store) \<longrightarrow>
      get_world_activity sample_builtins
        (after_post_characters 1700000000500 1700000000500 1700000000500 1700000000500)
        ''4'' JUndefined = Response 200 (JArr [JObj wl', JObj cl'])"
    by blast
  from logs' types' unused have same: "activity_types (get_world_activity sample_builtins
      (after_post_characters 1700000000500 1700000000500 1700000000500 1700000000500)
      ''4'' JUndefined) = [JStr ''WORLD_CREATED'', JStr ''CHARACTER_CREATED'']"
    by (simp add: activity_types_def)
  from fresh_world_scenario [OF fresh
      demo_post_worlds [of 1700000000500 1700000000503]
      demo_post_characters [of 1700000000500 1700000000503 1700000000504 1700000000501] inw p]
  obtain wl'' cl'' where
    types'': "fld cl'' ''activityType'' = JStr ''CHARACTER_CREATED''"
      "fld wl'' ''activityType'' = JStr ''WORLD_CREATED''"
    and logs'': "(1700000000501::int) < 1700000000503 \<longrightarrow>
      get_world_activity sample_builtins
        (after_post_characters 1700000000500 1700000000503 1700000000504 1700000000501)
        ''4'' JUndefined = Response 200 (JArr [JObj wl'', JObj cl''])"
    by blast
  from logs'' types'' have earlier: "activity_types (get_world_activity sample_builtins
      (after_post_characters 1700000000500 1700000000503 1700000000504 1700000000501)
      ''4'' JUndefined) = [JStr ''WORLD_CREATED'', JStr ''CHARACTER_CREATED'']"
    by (simp add: activity_types_def)
  from fresh demo_post_worlds demo_post_characters inw p unused chars later same earlier
  show ?thesis by simp
qed

section \<open>Properties of runs\<close>

subsection \<open>Identifiers\<close>

lemma created_makes:
  "created s x = Some (e, entity) \<Longrightarrow> makes x = Some e"
  by (cases x) auto

lemma makes_created:
  "makes x = Some e \<Longrightarrow> \<exists>entity. created s x = Some (e, entity) \<and>
     fld entity ''id'' = JNum (of_int (counter e s))"
  by (cases x)
     (auto simp: createUser_def createWorld_def createCharacter_def createScene_def
        createChatMessage_def createActivityLog_def Let_def fld_def)

lemma makes_none: "makes x = None \<Longrightarrow> created s x = None"
  by (cases x) auto

lemma counter_step:
  "counter e (apply_op s x) = (if makes x = Some e then counter e s + 1 else counter e s)"
  by (cases x; cases e)
     (auto simp: createUser_def createWorld_def createCharacter_def createScene_def
        createChatMessage_def createActivityLog_def updateWorld_def updateCharacter_def
        updateCharacterMemory_def updateScene_def deleteWorld_def deleteCharacter_def
        deleteScene_def Let_def split: option.splits)

lemma returned_ids_step:
  "returned_ids e s (x # xs) =
     (if makes x = Some e then JNum (of_int (counter e s)) # returned_ids e (apply_op s x) xs
      else returned_ids e (apply_op s x) xs)"
proof (cases "makes x")
  case None
  then show ?thesis by (simp add: makes_none)
next
  case (Some e')
  from makes_created [OF Some, of s] obtain entity where
    "created s x = Some (e', entity)" "fld entity ''id'' = JNum (of_int (counter e' s))"
    by blast
  with Some show ?thesis by auto
qed

lemma returned_ids_consecutive:
  "returned_ids e s xs =
     map (\<lambda>i. JNum (of_int (counter e s + int i))) [0..<creates e xs]"
proof (induction xs arbitrary: s)
  case Nil
  then show ?case by (simp add: creates_def)
next
  case (Cons x xs)
  show ?case
  proof (cases "makes x = Some e")
    case True
    have shift: "\<And>i. counter e s + 1 + int i = counter e s + int (Suc i)"
      by simp
    have "returned_ids e s (x # xs) =
        JNum (of_int (counter e s)) # returned_ids e (apply_op s x) xs"
      using True by (simp add: returned_ids_step del: returned_ids.simps)
    also have "returned_ids e (apply_op s x) xs =
        map (\<lambda>i. JNum (of_int (counter e s + 1 + int i))) [0..<creates e xs]"
      using True by (simp add: Cons.IH counter_step)
    also have "\<dots> = map (\<lambda>i. JNum (of_int (counter e s + int i))) (map Suc [0..<creates e xs])"
      by (simp only: shift map_map comp_def)
    also have "JNum (of_int (counter e s)) #
        map (\<lambda>i. JNum (of_int (counter e s + int i))) (map Suc [0..<creates e xs]) =
        map (\<lambda>i. JNum (of_int (counter e s + int i))) (0 # map Suc [0..<creates e xs])"
      by simp
    also have "0 # map Suc [0..<creates e xs] = [0..<Suc (creates e xs)]"
      by (simp only: map_Suc_upt upt_conv_Cons [symmetric] zero_less_Suc)
    also have "Suc (creates e xs) = creates e (x # xs)"
      using True by (simp add: creates_def)
    finally show ?thesis .
  next
    case False
    have "returned_ids e s (x # xs) = returned_ids e (apply_op s x) xs"
      using False by (simp add: returned_ids_step del: returned_ids.simps)
    also have "\<dots> = map (\<lambda>i. JNum (of_int (counter e s + int i))) [0..<creates e xs]"
      using False by (simp add: Cons.IH counter_step)
    also have "creates e xs = creates e (x # xs)"
      using False by (simp add: creates_def)
    finally show ?thesis .
  qed
qed

lemma sorted_consecutive:
  "sorted_wrt (<) (map (\<lambda>i. c + int i) [0..<n])"
proof -
  have "sorted_wrt (\<lambda>a b. c + int a < c + int b) [0..<n]"
    by (rule sorted_wrt_mono_rel [OF _ sorted_wrt_upt]) simp
  then show ?thesis by (simp add: sorted_wrt_map)
qed

lemma demo_keys_below_counter:
  "sorted_wrt (<) (keys_of e (MemStorage_new clock)) \<and>
   (\<forall>k \<in> set (keys_of e (MemStorage_new clock)). k < counter e (MemStorage_new clock))"
  by (cases e) (simp_all add: demo_store_eq)

text \<open>
  C4. For every entity type and every run of store calls from the store the constructor
  makes (creates, updates and deletes in any order): the ids returned by the creates of
  that type are numbers, one per create, and the keys of the demo data followed by these
  ids, in the order of issue, form a strictly increasing sequence. So each id is greater
  than every id issued before it for that type, and none is issued twice, deletes
  notwithstanding. (The counters are integers here; a JavaScript number stops counting
  at 2^53.)
\<close>

theorem ids_strictly_increasing:
  "\<exists>ns. returned_ids e (MemStorage_new clock) xs = map (\<lambda>n. JNum (of_int n)) ns \<and>
        length ns = creates e xs \<and>
        sorted_wrt (<) (keys_of e (MemStorage_new clock) @ ns)"
proof -
  let ?s = "MemStorage_new clock"
  let ?ns = "map (\<lambda>i. counter e ?s + int i) [0..<creates e xs]"
  have "returned_ids e ?s xs = map (\<lambda>n. JNum (of_int n)) ?ns"
    by (simp add: returned_ids_consecutive comp_def)
  moreover have "length ?ns = creates e xs" by simp
  moreover have "sorted_wrt (<) (keys_of e ?s @ ?ns)"
    using demo_keys_below_counter [of e clock] sorted_consecutive [of "counter e ?s" "creates e xs"]
    by (auto simp: sorted_wrt_append)
  ultimately show ?thesis by blast
qed

theorem ids_strictly_increasing_witness:
  "returned_ids World demo_store
      [CreateWorld 1700000000500 [''name'' \<mapsto> JStr ''Test''], DeleteWorld 4,
       CreateCharacter 1700000000501 [''name'' \<mapsto> JStr ''Hero''],
       CreateWorld 1700000000502 [''name'' \<mapsto> JStr ''Test'']] = [JNum 4, JNum 5] \<and>
   keys_of World demo_store = [1, 2, 3] \<and>
   sorted_wrt (<) (keys_of World demo_store @ [4, 5])"
proof -
  from ids_strictly_increasing [of World sample_clock
      "[CreateWorld 1700000000500 [''name'' \<mapsto> JStr ''Test''], DeleteWorld 4,
        CreateCharacter 1700000000501 [''name'' \<mapsto> JStr ''Hero''],
        CreateWorld 1700000000502 [''name'' \<mapsto> JStr ''Test'']]"]
  obtain ns where
    ns: "returned_ids World demo_store
      [CreateWorld 1700000000500 [''name'' \<mapsto> JStr ''Test''], DeleteWorld 4,
       CreateCharacter 1700000000501 [''name'' \<mapsto> JStr ''Hero''],
       CreateWorld 1700000000502 [''name'' \<mapsto> JStr ''Test'']] = map (\<lambda>n. JNum (of_int n)) ns"
    and s: "sorted_wrt (<) (keys_of World demo_store @ ns)"
    unfolding demo_store_def by blast
  have r: "returned_ids World demo_store
      [CreateWorld 1700000000500 [''name'' \<mapsto> JStr ''Test''], DeleteWorld 4,
       CreateCharacter 1700000000501 [''name'' \<mapsto> JStr ''Hero''],
       CreateWorld 1700000000502 [''name'' \<mapsto> JStr ''Test'']] = [JNum 4, JNum 5]"
    by (simp add: returned_ids_step counter_step demo_store_def demo_store_eq
        del: returned_ids.simps(2) apply_op.simps)
  from ns r have "map (\<lambda>n. JNum (rat_of_int n)) ns = map (\<lambda>n. JNum (rat_of_int n)) [4, 5]"
    by simp
  moreover have "inj (\<lambda>n. JNum (rat_of_int n))"
    by (simp add: inj_def)
  ultimately have "ns = [4, 5]"
    by (simp only: inj_map_eq_map)
  with r s show ?thesis by (simp add: demo_store_def demo_store_eq)
qed

text \<open>
  On every run the keys of each map stay below the counter of its type; so the id after
  the next activity id is never a key already, and the activity entries of a new world
  and of its first character are inserted in that order.
\<close>

lemma below_update:
  "(\<forall>x \<in> set (AList.update i v al). fst x < (c::int)) \<longleftrightarrow>
     i < c \<and> (\<forall>x \<in> set al. fst x < c)"
  by (induction al) auto

lemma below_delete:
  "\<forall>x \<in> set al. fst x < c \<Longrightarrow> \<forall>x \<in> set (AList.delete i al). fst x < (c::int)"
  by (induction al) auto

lemma below_present:
  "map_of al i = Some y \<Longrightarrow> \<forall>x \<in> set al. fst x < (c::int) \<Longrightarrow> i < c"
  by (fastforce dest: map_of_SomeD)

lemma below_update_next:
  "\<forall>x \<in> set al. fst x < c \<Longrightarrow> \<forall>x \<in> set (AList.update c v al). fst x \<le> (c::int)"
  by (induction al) auto

lemma keys_step:
  assumes "\<forall>k \<in> set (keys_of e s). k < counter e s"
  shows "\<forall>k \<in> set (keys_of e (apply_op s x)). k < counter e (apply_op s x)"
proof (cases x)
  case (UpdateWorld i d)
  with assms below_present [of "worlds s" i _ "worldIdCounter s"] show ?thesis
    by (cases e) (simp_all add: updateWorld_def getWorld_def Let_def below_update split: option.splits)
next
  case (UpdateCharacter i d)
  with assms below_present [of "characters s" i _ "characterIdCounter s"] show ?thesis
    by (cases e) (simp_all add: updateCharacter_def getCharacter_def Let_def below_update split: option.splits)
next
  case (UpdateCharacterMemory i d)
  with assms below_present [of "characters s" i _ "characterIdCounter s"] show ?thesis
    by (cases e)
       (simp_all add: updateCharacterMemory_def getCharacter_def Let_def below_update split: option.splits)
next
  case (UpdateScene i d)
  with assms below_present [of "scenes s" i _ "sceneIdCounter s"] show ?thesis
    by (cases e) (simp_all add: updateScene_def getScene_def Let_def below_update split: option.splits)
next
  case (DeleteWorld i)
  with assms show ?thesis
    by (cases e) (simp_all add: deleteWorld_def below_delete)
next
  case (DeleteCharacter i)
  with assms show ?thesis
    by (cases e) (simp_all add: deleteCharacter_def below_delete)
next
  case (DeleteScene i)
  with assms show ?thesis
    by (cases e) (simp_all add: deleteScene_def below_delete)
next
  case (CreateUser u)
  with assms show ?thesis
    by (cases e) (simp_all add: createUser_def Let_def below_update_next)
next
  case (CreateWorld now d)
  with assms show ?thesis
    by (cases e) (simp_all add: createWorld_def Let_def below_update_next)
next
  case (CreateCharacter now d)
  with assms show ?thesis
    by (cases e) (simp_all add: createCharacter_def Let_def below_update_next)
next
  case (CreateScene now d)
  with assms show ?thesis
    by (cases e) (simp_all add: createScene_def Let_def below_update_next)
next
  case (CreateChatMessage now d)
  with assms show ?thesis
    by (cases e) (simp_all add: createChatMessage_def Let_def below_update_next)
next
  case (CreateActivityLog now d)
  with assms show ?thesis
    by (cases e) (simp_all add: createActivityLog_def Let_def below_update_next)
qed

lemma run_keys_below_counter:
  "\<forall>k \<in> set (keys_of e (foldl apply_op (MemStorage_new clock) xs)).
     k < counter e (foldl apply_op (MemStorage_new clock) xs)"
proof (induction xs rule: rev_induct)
  case Nil
  then show ?case using demo_keys_below_counter [of e clock] by simp
next
  case (snoc x xs)
  then show ?case using keys_step [of e "foldl apply_op (MemStorage_new clock) xs" x] by simp
qed

lemma run_next_log_ids_unused:
  "activityLogIdCounter (foldl apply_op (MemStorage_new clock) xs) + 1
     \<notin> fst ` set (activityLogs (foldl apply_op (MemStorage_new clock) xs))"
  using run_keys_below_counter [of ActivityLog clock xs] by fastforce


subsection \<open>References\<close>

lemma strict_eq_num [simp]: "strict_eq v (JNum q) \<longleftrightarrow> v = JNum q"
  by (cases v) auto

lemma fld_upd_same [simp]: "fld (m(k \<mapsto> v)) k = v"
  by (simp add: fld_def)

lemma fld_upd_other [simp]: "k \<noteq> k' \<Longrightarrow> fld (m(k' \<mapsto> v)) k = fld m k"
  by (simp add: fld_def)

lemma names_key_iff: "names_key ks v \<longleftrightarrow> (\<exists>k \<in> set ks. v = JNum (of_int k))"
  by (simp add: names_key_def list_ex_iff)

lemma names_key_mono: "names_key ks v \<Longrightarrow> set ks \<subseteq> set ks' \<Longrightarrow> names_key ks' v"
  by (auto simp: names_key_iff)

lemma refs_in_mono: "refs_in ks key xs \<Longrightarrow> set ks \<subseteq> set ks' \<Longrightarrow> refs_in ks' key xs"
  by (induction xs) (auto simp: refs_in_def intro: names_key_mono)

lemma refs_in_update:
  "refs_in ks key (map snd al) \<Longrightarrow> names_key ks (fld v key) \<Longrightarrow>
   refs_in ks key (map snd (AList.update i v al))"
  by (induction al) (auto simp: refs_in_def)

lemma refs_in_delete:
  "refs_in ks key (map snd al) \<Longrightarrow> refs_in ks key (map snd (AList.delete i al))"
  by (induction al) (auto simp: refs_in_def)

lemma refs_in_without_key:
  "refs_in ks key xs \<Longrightarrow> \<not> list_ex (\<lambda>e. strict_eq (fld e key) (JNum (of_int i))) xs \<Longrightarrow>
   set ks - {i} \<subseteq> set ks' \<Longrightarrow> refs_in ks' key xs"
  by (induction xs) (auto simp: refs_in_def names_key_iff)

lemma refs_in_lookup:
  "refs_in ks key (map snd al) \<Longrightarrow> map_of al i = Some v \<Longrightarrow> names_key ks (fld v key)"
  by (induction al) (auto simp: refs_in_def split: if_splits)

lemma keys_update: "fst ` set (AList.update k v al) = insert k (fst ` set al)"
  by (induction al) auto

lemma keys_delete: "fst ` set (AList.delete k al) = fst ` set al - {k}"
  by (induction al) auto

lemma refs_in_keys_update:
  "refs_in (map fst al) key xs \<Longrightarrow> refs_in (map fst (AList.update i v al)) key xs"
  by (rule refs_in_mono) (auto simp: keys_update)

lemma refs_in_keys_delete:
  "refs_in (map fst al) key xs \<Longrightarrow>
   \<not> list_ex (\<lambda>e. strict_eq (fld e key) (JNum (of_int i))) xs \<Longrightarrow>
   refs_in (map fst (AList.delete i al)) key xs"
  by (rule refs_in_without_key) (auto simp: keys_delete)

lemma integrity_create:
  assumes "referential_integrity s"
  shows "referential_integrity (snd (createUser s u))"
    and "referential_integrity (snd (createWorld s now w))"
    and "world_exists s (fld c ''worldId'') \<Longrightarrow>
           referential_integrity (snd (createCharacter s now c))"
    and "world_exists s (fld c ''worldId'') \<Longrightarrow>
           referential_integrity (snd (createScene s now c))"
    and "world_exists s (fld c ''worldId'') \<Longrightarrow>
           referential_integrity (snd (createActivityLog s now c))"
    and "character_exists s (fld c ''characterId'') \<Longrightarrow>
           referential_integrity (snd (createChatMessage s now c))"
  using assms
  by (simp_all add: referential_integrity_def world_exists_def character_exists_def
      map_values_def createUser_def createWorld_def createCharacter_def createScene_def
      createActivityLog_def createChatMessage_def Let_def
      refs_in_update refs_in_keys_update)

lemma integrity_delete:
  assumes "referential_integrity s"
  shows "keeps_references s (DeleteWorld i) \<Longrightarrow> referential_integrity (snd (deleteWorld s i))"
    and "keeps_references s (DeleteCharacter i) \<Longrightarrow>
           referential_integrity (snd (deleteCharacter s i))"
    and "referential_integrity (snd (deleteScene s i))"
  using assms
  by (simp_all add: referential_integrity_def map_values_def refers_to_def
      deleteWorld_def deleteCharacter_def deleteScene_def
      refs_in_delete refs_in_keys_delete)

lemma merged_reference:
  "d key = None \<or> names_key ks (fld d key) \<Longrightarrow> names_key ks (fld old key) \<Longrightarrow>
   names_key ks (fld (old ++ d) key)"
  by (auto simp: fld_def map_add_def split: option.splits)

lemma integrity_update:
  assumes "referential_integrity s"
  shows "referential_integrity (snd (updateWorld s i d))"
    and "keeps_references s (UpdateCharacter i d) \<Longrightarrow>
           referential_integrity (snd (updateCharacter s i d))"
    and "keeps_references s (UpdateScene i d) \<Longrightarrow>
           referential_integrity (snd (updateScene s i d))"
    and "referential_integrity (snd (updateCharacterMemory s i m))"
proof -
  show "referential_integrity (snd (updateWorld s i d))"
    using assms
    by (cases "map_of (worlds s) i")
       (simp_all add: referential_integrity_def map_values_def updateWorld_def Let_def
          refs_in_keys_update)
  show "referential_integrity (snd (updateCharacterMemory s i m))"
  proof (cases "map_of (characters s) i")
    case None
    with assms show ?thesis by (simp add: updateCharacterMemory_def)
  next
    case (Some old)
    with assms have "names_key (map fst (worlds s)) (fld old ''worldId'')"
      by (auto simp: referential_integrity_def map_values_def dest: refs_in_lookup)
    with assms Some show ?thesis
      by (simp add: referential_integrity_def map_values_def updateCharacterMemory_def Let_def
          refs_in_update refs_in_keys_update)
  qed
  show "referential_integrity (snd (updateCharacter s i d))"
    if keeps: "keeps_references s (UpdateCharacter i d)"
  proof (cases "map_of (characters s) i")
    case None
    with assms show ?thesis by (simp add: updateCharacter_def)
  next
    case (Some old)
    with assms have "names_key (map fst (worlds s)) (fld old ''worldId'')"
      by (auto simp: referential_integrity_def map_values_def dest: refs_in_lookup)
    with keeps have "names_key (map fst (worlds s)) (fld (old ++ d) ''worldId'')"
      by (auto simp: world_exists_def intro: merged_reference)
    with assms Some show ?thesis
      by (simp add: referential_integrity_def map_values_def updateCharacter_def Let_def
          refs_in_update refs_in_keys_update)
  qed
  show "referential_integrity (snd (updateScene s i d))"
    if keeps: "keeps_references s (UpdateScene i d)"
  proof (cases "map_of (scenes s) i")
    case None
    with assms show ?thesis by (simp add: updateScene_def)
  next
    case (Some old)
    with assms have "names_key (map fst (worlds s)) (fld old ''worldId'')"
      by (auto simp: referential_integrity_def map_values_def dest: refs_in_lookup)
    with keeps have "names_key (map fst (worlds s)) (fld (old ++ d) ''worldId'')"
      by (auto simp: world_exists_def intro: merged_reference)
    with assms Some show ?thesis
      by (simp add: referential_integrity_def map_values_def updateScene_def Let_def
          refs_in_update)
  qed
qed

lemma demo_integrity: "referential_integrity (MemStorage_new clock)"
  by (simp add: referential_integrity_def refs_in_def names_key_def map_values_def demo_store_eq
      lyra_def cipher_def blackthorne_def krakenScene_def activity_def demo_message_def)

lemma demo_delete_world_1:
  "delete_world sample_builtins demo_store ''1'' =
     (Response 204 JUndefined, demo_store\<lparr>worlds := AList.delete 1 (worlds demo_store)\<rparr>)"
proof -
  have "map_has (worlds demo_store) 1"
    by (simp add: map_has_def demo_store_def demo_store_eq)
  then show ?thesis
    by (simp add: delete_world_def sample_parse_str_1 demo_world1 deleteWorld_def)
qed

text \<open>
  C2, as stated, fails: the store checks no reference. The demo store has referential
  integrity; DELETE /api/worlds/1 is answered 204 and leaves character 1 with the
  \<open>worldId\<close> of a world that is gone; and \<open>createCharacter\<close> with the \<open>worldId\<close> 99 stores a
  character of a world that never was.
\<close>

theorem dangling_references:
  "referential_integrity demo_store \<and>
   status (fst (delete_world sample_builtins demo_store ''1'')) = 204 \<and>
   getWorld (snd (delete_world sample_builtins demo_store ''1'')) 1 = None \<and>
   character_field (snd (delete_world sample_builtins demo_store ''1'')) 1 ''worldId'' = JNum 1 \<and>
   \<not> referential_integrity (snd (delete_world sample_builtins demo_store ''1'')) \<and>
   \<not> referential_integrity (snd (createCharacter demo_store 1700000000500
        [''worldId'' \<mapsto> JNum 99, ''name'' \<mapsto> JStr ''Hero'']))"
proof (intro conjI)
  show "referential_integrity demo_store"
    by (simp add: demo_store_def demo_integrity)
  show "status (fst (delete_world sample_builtins demo_store ''1'')) = 204"
    by (simp add: demo_delete_world_1 status_def)
  show "getWorld (snd (delete_world sample_builtins demo_store ''1'')) 1 = None"
    unfolding demo_delete_world_1 by (simp add: getWorld_def demo_store_def demo_store_eq)
  show "character_field (snd (delete_world sample_builtins demo_store ''1'')) 1 ''worldId'' = JNum 1"
    unfolding demo_delete_world_1
    by (simp add: character_field_def getCharacter_def demo_store_def demo_store_eq lyra_def)
  show "\<not> referential_integrity (snd (delete_world sample_builtins demo_store ''1''))"
    unfolding demo_delete_world_1
    by (simp add: referential_integrity_def refs_in_def names_key_def
        map_values_def demo_store_def demo_store_eq lyra_def)
  show "\<not> referential_integrity (snd (createCharacter demo_store 1700000000500
        [''worldId'' \<mapsto> JNum 99, ''name'' \<mapsto> JStr ''Hero'']))"
    by (simp add: createCharacter_def Let_def referential_integrity_def refs_in_def names_key_def
        map_values_def demo_store_def demo_store_eq)
qed

text \<open>
  C2, amended. The store the constructor makes has referential integrity, and a store
  call keeps it when it is a create or an update whose parent reference names an
  existing entity, a delete of a world or character that nothing refers to, or any
  call that touches no reference (create or update of a world, create of a user,
  update of a memory, delete of a scene).
\<close>

theorem referential_integrity_kept:
  "referential_integrity (MemStorage_new clock) \<and>
   (referential_integrity s \<and> keeps_references s x \<longrightarrow> referential_integrity (apply_op s x))"
proof (intro conjI impI)
  show "referential_integrity (MemStorage_new clock)"
    by (rule demo_integrity)
next
  assume "referential_integrity s \<and> keeps_references s x"
  then have ri: "referential_integrity s" and keeps: "keeps_references s x"
    by simp_all
  show "referential_integrity (apply_op s x)"
  proof (cases x)
    case (UpdateCharacter i d)
    with keeps integrity_update(2) [OF ri, of i d] show ?thesis by simp
  next
    case (UpdateScene i d)
    with keeps integrity_update(3) [OF ri, of i d] show ?thesis by simp
  next
    case (DeleteWorld i)
    with keeps integrity_delete(1) [OF ri, of i] show ?thesis by simp
  next
    case (DeleteCharacter i)
    with keeps integrity_delete(2) [OF ri, of i] show ?thesis by simp
  qed (use ri keeps in \<open>simp_all add: integrity_create integrity_update integrity_delete\<close>)
qed

theorem referential_integrity_kept_witness:
  "referential_integrity demo_store \<and>
   keeps_references demo_store
     (CreateCharacter 1700000000500 [''worldId'' \<mapsto> JNum 2, ''name'' \<mapsto> JStr ''Hero'']) \<and>
   referential_integrity (apply_op demo_store
     (CreateCharacter 1700000000500 [''worldId'' \<mapsto> JNum 2, ''name'' \<mapsto> JStr ''Hero'']))"
proof -
  have k: "keeps_references demo_store
     (CreateCharacter 1700000000500 [''worldId'' \<mapsto> JNum 2, ''name'' \<mapsto> JStr ''Hero''])"
    by (simp add: world_exists_def names_key_def demo_store_def demo_store_eq)
  from referential_integrity_kept [of sample_clock demo_store
      "CreateCharacter 1700000000500 [''worldId'' \<mapsto> JNum 2, ''name'' \<mapsto> JStr ''Hero'']"] k
  show ?thesis
    unfolding demo_store_def [symmetric] by blast
qed


subsection \<open>Dates\<close>

text \<open>
  On every run the chat messages and the activity entries carry the date their create
  gave them, so the listings of both are sorted as C5 says.
\<close>

lemma dated_update:
  "list_all dated (map snd al) \<Longrightarrow> dated v \<Longrightarrow> list_all dated (map snd (AList.update k v al))"
  by (induction al) auto

lemma demo_dated: "all_dated (MemStorage_new clock)"
  by (simp add: all_dated_def dated_def map_values_def demo_store_eq activity_def demo_message_def)

lemma step_dated: "all_dated s \<Longrightarrow> all_dated (apply_op s x)"
  by (cases x)
     (auto simp: all_dated_def map_values_def dated_def [of "_(_ \<mapsto> _)"] dated_update
        createUser_def createWorld_def createCharacter_def createScene_def
        createChatMessage_def createActivityLog_def updateWorld_def updateCharacter_def
        updateCharacterMemory_def updateScene_def deleteWorld_def deleteCharacter_def
        deleteScene_def Let_def split: option.splits)

lemma run_dated: "all_dated (foldl apply_op (MemStorage_new clock) xs)"
  by (induction xs rule: rev_induct) (simp_all add: demo_dated step_dated)

lemma dated_timed: "dated e \<Longrightarrow> timed rt e"
  by (auto simp: dated_def timed_def getTime_def fld_def split: option.splits jsval.splits)

lemma run_timed:
  "list_all (timed rt) (filter P (map_values (chatMessages (foldl apply_op (MemStorage_new clock) xs))))"
  "list_all (timed rt) (filter P (map_values (activityLogs (foldl apply_op (MemStorage_new clock) xs))))"
  using run_dated [of clock xs]
  by (auto simp: all_dated_def list_all_iff dated_timed)

lemma run_listings_sorted:
  "sorted_wrt (\<lambda>a b. created_time rt a \<le> created_time rt b)
     (getChatMessagesByCharacter rt (foldl apply_op (MemStorage_new clock) xs) c)"
  "sorted_wrt (\<lambda>a b. created_time rt b \<le> created_time rt a)
     (getActivityLogsByWorld rt (foldl apply_op (MemStorage_new clock) xs) w limit)"
  using messages_listing(2) [OF run_timed(1) [unfolded of_character_def [symmetric]]]
    logs_listing(2) [OF run_timed(2)]
  by blast+

end
